theory Spec2Isabelle
  imports Main "HOL-Library.Word" "HOL-Library.AList"
begin

section \<open>Values shared by all backends\<close>

text \<open>
  A byte stream is a list of bytes. A \<open>time.Time\<close> is an instant on an integer time line;
  the zero \<open>Time\<close> (the one \<open>IsZero\<close> recognises) is \<open>0\<close>. Go errors are values of
  \<open>error\<close>: the operating system's error numbers, the object stores' answers, and
  \<open>Errorf\<close> for \<open>fmt.Errorf("...: %v", err)\<close> (the message is kept as an ASCII tag).
\<close>

type_synonym bytes = "8 word list"

type_synonym Time = int

datatype error =
    ENOENT | EISDIR | ENOTDIR | ENOTEMPTY | EINVAL
  | NoSuchKey | RemoteError | InvalidArgument | InvalidRange
  | ReadFailed
  | Errorf string error

definition IsZero :: "Time \<Rightarrow> bool" where
  "IsZero t = (t = 0)"

text \<open>
  An \<open>io.Reader\<close> handed to an upload: the bytes it delivers, followed by end of file
  (\<open>None\<close>) or by a read error.
\<close>

datatype io_Reader = Reader bytes "error option"

text \<open>\<open>int64\<close> arithmetic wraps around.\<close>

definition wrap64 :: "int \<Rightarrow> int" where
  "wrap64 x = (x + 2 ^ 63) mod 2 ^ 64 - 2 ^ 63"

section \<open>Paths: \<open>path/filepath\<close> and \<open>strings\<close> (Unix separator)\<close>

text \<open>
  \<open>filepath.Clean\<close> works element by element: empty elements and \<open>.\<close> are dropped,
  \<open>..\<close> removes the element before it (at the root it is dropped, at the start of a
  relative path it is kept), and the elements that remain are joined by single separators
  with no trailing separator. The empty result is \<open>.\<close>, the root is \<open>/\<close>.
  \<open>filepath.Join\<close> cleans the elements joined by the separator, starting at the first
  non-empty one; \<open>filepath.Dir\<close> cleans the path up to its last separator.
\<close>

fun split_sep :: "string \<Rightarrow> string list" where
  "split_sep [] = [[]]"
| "split_sep (c # cs) =
     (if c = CHR ''/'' then [] # split_sep cs
      else (case split_sep cs of [] \<Rightarrow> [[c]] | e # es \<Rightarrow> (c # e) # es))"

fun join_sep :: "string list \<Rightarrow> string" where
  "join_sep [] = []"
| "join_sep [e] = e"
| "join_sep (e # es) = e @ ''/'' @ join_sep es"

definition clean_step :: "bool \<Rightarrow> string list \<Rightarrow> string \<Rightarrow> string list" where
  "clean_step rooted out e =
     (if e = [] \<or> e = ''.'' then out
      else if e = ''..'' then
        (if out \<noteq> [] \<and> last out \<noteq> ''..'' then butlast out
         else if rooted then out
         else out @ [''..''])
      else out @ [e])"

definition filepath_Clean :: "string \<Rightarrow> string" where
  "filepath_Clean path =
     (if path = [] then ''.''
      else
        (let rooted = (hd path = CHR ''/'');
             out = foldl (clean_step rooted) [] (split_sep path)
         in if rooted then ''/'' @ join_sep out
            else if out = [] then ''.''
            else join_sep out))"

definition filepath_Join :: "string \<Rightarrow> string \<Rightarrow> string" where
  "filepath_Join a b =
     (if a \<noteq> [] then filepath_Clean (a @ ''/'' @ b)
      else if b \<noteq> [] then filepath_Clean b
      else [])"

definition filepath_Dir :: "string \<Rightarrow> string" where
  "filepath_Dir path = filepath_Clean (rev (dropWhile (\<lambda>c. c \<noteq> CHR ''/'') (rev path)))"

definition strings_HasPrefix :: "string \<Rightarrow> string \<Rightarrow> bool" where
  "strings_HasPrefix s prefix = (length prefix \<le> length s \<and> take (length prefix) s = prefix)"

subsection \<open>Helpers of the repository\<close>

definition ensureOSSDirPath :: "string \<Rightarrow> string" where
  "ensureOSSDirPath path =
     (if length path > 0 \<and> last path \<noteq> CHR ''/'' then path @ ''/'' else path)"

definition isDirectoryPlaceholder :: "string \<Rightarrow> string \<Rightarrow> bool" where
  "isDirectoryPlaceholder key dirPath = (key = dirPath \<or> key = dirPath @ ''/'')"

section \<open>Metadata and configuration\<close>

record FileMetadata =
  Name :: string
  Size :: int
  ModTime :: Time
  IsDir :: bool
  MIMEType :: string

type_synonym StorageType = string

definition Local :: StorageType where
  "Local = ''local''"

definition OSS :: StorageType where
  "OSS = ''oss''"

definition MinIO :: StorageType where
  "MinIO = ''minio''"

record LocalStorageConfig =
  BasePath :: string

record OSSStorageConfig =
  Endpoint :: string
  AccessKeyID :: string
  AccessKeySecret :: string
  Bucket :: string
  BaseDir :: string

text \<open>
  \<open>MinIOStorageConfig\<close> has the five fields of \<open>OSSStorageConfig\<close> under the same names
  and \<open>UseSSL\<close>; it is written as an extension so that the field names stay the source's.
\<close>

record MinIOStorageConfig = OSSStorageConfig +
  UseSSL :: bool

text \<open>
  The struct \<open>Types\<close>. Its field \<open>Local\<close> is \<open>LocalCfg\<close> here, since \<open>Local\<close> is also
  the storage type constant.
\<close>

record Types =
  Mode :: StorageType
  AssignMode :: StorageType
  MaxSize :: int
  LocalCfg :: LocalStorageConfig
  Minio :: MinIOStorageConfig
  Oss :: OSSStorageConfig

type_synonym StorageOption = "Types \<Rightarrow> Types"

definition WithLocalConfig :: "LocalStorageConfig \<Rightarrow> StorageOption" where
  "WithLocalConfig config = (\<lambda>s. s\<lparr>LocalCfg := config, Mode := Local\<rparr>)"

definition WithMinIOConfig :: "MinIOStorageConfig \<Rightarrow> StorageOption" where
  "WithMinIOConfig config = (\<lambda>s. s\<lparr>Minio := config, Mode := MinIO\<rparr>)"

definition WithOSSConfig :: "OSSStorageConfig \<Rightarrow> StorageOption" where
  "WithOSSConfig config = (\<lambda>s. s\<lparr>Oss := config, Mode := OSS\<rparr>)"

definition WithMode :: "StorageType \<Rightarrow> StorageOption" where
  "WithMode mode = (\<lambda>s. s\<lparr>Mode := mode\<rparr>)"

definition WithAssignMode :: "StorageType \<Rightarrow> StorageOption" where
  "WithAssignMode mode = (\<lambda>s. s\<lparr>AssignMode := mode\<rparr>)"

definition WithMaxSize :: "int \<Rightarrow> StorageOption" where
  "WithMaxSize maxSize = (\<lambda>s. s\<lparr>MaxSize := maxSize\<rparr>)"

text \<open>
  What the process finds around it: the temporary directory \<open>os.TempDir()\<close>, and whether
  a client for an object store can be set up (\<open>NewOSSStorage\<close> and \<open>NewMinIOStorage\<close>
  return \<open>nil\<close> when it cannot).
\<close>

record environment =
  TempDir :: string
  oss_connects :: "OSSStorageConfig \<Rightarrow> bool"
  minio_connects :: "MinIOStorageConfig \<Rightarrow> bool"

definition DefaultStorageOptions :: "environment \<Rightarrow> StorageOption list" where
  "DefaultStorageOptions env =
     [WithMode Local, WithLocalConfig \<lparr>BasePath = TempDir env\<rparr>]"

datatype Storage =
    LocalStorage LocalStorageConfig
  | OSSStorage OSSStorageConfig
  | MinIOStorage MinIOStorageConfig

definition NewLocalStorage :: "LocalStorageConfig \<Rightarrow> Storage option" where
  "NewLocalStorage config = Some (LocalStorage config)"

definition NewOSSStorage :: "environment \<Rightarrow> OSSStorageConfig \<Rightarrow> Storage option" where
  "NewOSSStorage env config =
     (if oss_connects env config then Some (OSSStorage config) else None)"

definition NewMinIOStorage :: "environment \<Rightarrow> MinIOStorageConfig \<Rightarrow> Storage option" where
  "NewMinIOStorage env config =
     (if minio_connects env config then Some (MinIOStorage config) else None)"

text \<open>
  \<open>GetStorage\<close> applies the options to the receiver, settles \<open>AssignMode\<close>, and dispatches
  on it. It returns the receiver as it leaves it, the base path and the instance
  (\<open>None\<close> is \<open>nil\<close>). In the branch where both modes are empty the source assigns
  \<open>DefaultStorageOptions()\<close> to its parameter \<open>opts\<close>; \<open>opts'\<close> is that variable, which
  nothing reads afterwards.
\<close>

definition GetStorage ::
  "environment \<Rightarrow> Types \<Rightarrow> StorageOption list \<Rightarrow> Types \<times> string \<times> Storage option" where
  "GetStorage env s0 opts =
     (let s1 = fold (\<lambda>opt s. opt s) opts s0;
          (s, opts') =
            (if AssignMode s1 = [] \<and> Mode s1 \<noteq> [] then (s1\<lparr>AssignMode := Mode s1\<rparr>, opts)
             else if AssignMode s1 = [] \<and> Mode s1 = [] then (s1, DefaultStorageOptions env)
             else (s1, opts))
      in if AssignMode s = MinIO then
           (if BaseDir (Minio s) = [] \<or> Endpoint (Minio s) = [] \<or> AccessKeyID (Minio s) = []
               \<or> AccessKeySecret (Minio s) = [] \<or> Bucket (Minio s) = []
            then (s, [], None)
            else (s, BaseDir (Minio s), NewMinIOStorage env (Minio s)))
         else if AssignMode s = OSS then
           (if BaseDir (Oss s) = [] \<or> Endpoint (Oss s) = [] \<or> AccessKeyID (Oss s) = []
               \<or> AccessKeySecret (Oss s) = [] \<or> Bucket (Oss s) = []
            then (s, [], None)
            else (s, BaseDir (Oss s), NewOSSStorage env (Oss s)))
         else
           (if BasePath (LocalCfg s) = [] then (s, [], None)
            else (s, BasePath (LocalCfg s), NewLocalStorage (LocalCfg s))))"

section \<open>The filesystem backend\<close>

text \<open>
  The file tree the backend works on: an association list from cleaned paths to nodes,
  and the clock that stamps writes. The directories \<open>/\<close> and \<open>.\<close> always exist:
  \<open>lookup\<close> is the node at a path.
  The \<open>os\<close> calls below are the operating system's, reduced to what the backend uses
  of them; each returns the error it fails with.
\<close>

datatype node = RegularFile bytes Time | Directory

record filesystem =
  nodes :: "(string \<times> node) list"
  clock :: Time

definition lookup :: "filesystem \<Rightarrow> string \<Rightarrow> node option" where
  "lookup fs p = (if p = ''/'' \<or> p = ''.'' then Some Directory else map_of (nodes fs) p)"

definition dir_chain :: "string \<Rightarrow> string list" where
  "dir_chain path =
     (let comps = filter (\<lambda>e. e \<noteq> [] \<and> e \<noteq> ''.'') (split_sep path);
          root = (if path \<noteq> [] \<and> hd path = CHR ''/'' then ''/'' else [])
      in map (\<lambda>n. root @ join_sep (take n comps)) [1..<Suc (length comps)])"

fun mkdir_chain :: "string list \<Rightarrow> filesystem \<Rightarrow> error option \<times> filesystem" where
  "mkdir_chain [] fs = (None, fs)"
| "mkdir_chain (d # ds) fs =
     (case lookup fs d of
        Some (RegularFile c t) \<Rightarrow> (Some ENOTDIR, fs)
      | Some Directory \<Rightarrow> mkdir_chain ds fs
      | None \<Rightarrow> mkdir_chain ds (fs\<lparr>nodes := AList.update d Directory (nodes fs)\<rparr>))"

text \<open>\<open>os.MkdirAll\<close> makes the directory and the parents it lacks, from the top down.\<close>

definition os_MkdirAll :: "string \<Rightarrow> filesystem \<Rightarrow> error option \<times> filesystem" where
  "os_MkdirAll path fs = mkdir_chain (dir_chain path) fs"

text \<open>
  The error of a system call on a path that names nothing. The kernel walks the parents
  of the path from the top down: the first one that is a regular file makes the call fail
  with \<open>ENOTDIR\<close>; a missing parent, or a missing last element, with \<open>ENOENT\<close>.
\<close>

definition ancestors :: "string \<Rightarrow> string list" where
  "ancestors path = butlast (dir_chain path)"

fun walk_error :: "string list \<Rightarrow> filesystem \<Rightarrow> error" where
  "walk_error [] fs = ENOENT"
| "walk_error (d # ds) fs =
     (case lookup fs d of
        Some (RegularFile c t) \<Rightarrow> ENOTDIR
      | Some Directory \<Rightarrow> walk_error ds fs
      | None \<Rightarrow> ENOENT)"

definition missing_error :: "filesystem \<Rightarrow> string \<Rightarrow> error" where
  "missing_error fs path = walk_error (ancestors path) fs"

text \<open>\<open>os.Create\<close>: the file exists and is empty afterwards.\<close>

definition os_Create :: "string \<Rightarrow> filesystem \<Rightarrow> error + filesystem" where
  "os_Create path fs =
     (case lookup fs path of
        Some Directory \<Rightarrow> Inl EISDIR
      | _ \<Rightarrow>
          (case lookup fs (filepath_Dir path) of
             Some Directory \<Rightarrow>
               Inr (fs\<lparr>nodes := AList.update path (RegularFile [] (clock fs)) (nodes fs)\<rparr>)
           | Some (RegularFile c t) \<Rightarrow> Inl ENOTDIR
           | None \<Rightarrow> Inl (missing_error fs path)))"

text \<open>
  \<open>io.Copy(file, reader)\<close> into the file just created: the bytes the reader delivers
  are written; the reader's error, if any, is returned after them.
\<close>

fun io_Copy_to_file :: "string \<Rightarrow> io_Reader \<Rightarrow> filesystem \<Rightarrow> error option \<times> filesystem" where
  "io_Copy_to_file path (Reader data err) fs =
     (err, fs\<lparr>nodes := AList.update path (RegularFile data (clock fs)) (nodes fs)\<rparr>)"

definition os_Open :: "string \<Rightarrow> filesystem \<Rightarrow> error + node" where
  "os_Open path fs =
     (case lookup fs path of None \<Rightarrow> Inl (missing_error fs path) | Some n \<Rightarrow> Inr n)"

definition has_children :: "filesystem \<Rightarrow> string \<Rightarrow> bool" where
  "has_children fs path = list_ex (\<lambda>(p, n). p \<noteq> path \<and> filepath_Dir p = path) (nodes fs)"

definition os_Remove :: "string \<Rightarrow> filesystem \<Rightarrow> error option \<times> filesystem" where
  "os_Remove path fs =
     (case lookup fs path of
        None \<Rightarrow> (Some (missing_error fs path), fs)
      | Some (RegularFile c t) \<Rightarrow> (None, fs\<lparr>nodes := AList.delete path (nodes fs)\<rparr>)
      | Some Directory \<Rightarrow>
          if path = ''/'' \<or> path = ''.'' then (Some EINVAL, fs)
          else if has_children fs path then (Some ENOTEMPTY, fs)
          else (None, fs\<lparr>nodes := AList.delete path (nodes fs)\<rparr>))"

text \<open>
  \<open>os.Chtimes(name, atime, mtime)\<close> sets the times of a file; a zero \<open>Time\<close> leaves
  the corresponding time as it is. When both times are zero the system call has nothing to
  set and returns success without looking the path up. Only the modification time is
  kept in the model.
\<close>

definition os_Chtimes :: "string \<Rightarrow> Time \<Rightarrow> Time \<Rightarrow> filesystem \<Rightarrow> error option \<times> filesystem" where
  "os_Chtimes path atime mtime fs =
     (if IsZero atime \<and> IsZero mtime then (None, fs)
      else (case lookup fs path of
              None \<Rightarrow> (Some (missing_error fs path), fs)
            | Some Directory \<Rightarrow> (None, fs)
            | Some (RegularFile c t) \<Rightarrow>
                if IsZero mtime then (None, fs)
                else (None, fs\<lparr>nodes := AList.update path (RegularFile c mtime) (nodes fs)\<rparr>)))"

subsection \<open>\<open>LocalStorage\<close>\<close>

definition LocalStorage_Upload ::
  "LocalStorageConfig \<Rightarrow> string \<Rightarrow> io_Reader \<Rightarrow> filesystem \<Rightarrow> error option \<times> filesystem" where
  "LocalStorage_Upload s filePath reader fs =
     (let fullPath = filepath_Join (BasePath s) filePath;
          dir = filepath_Dir fullPath
      in case os_MkdirAll dir fs of
           (Some err, fs1) \<Rightarrow> (Some err, fs1)
         | (None, fs1) \<Rightarrow>
             (case os_Create fullPath fs1 of
                Inl err \<Rightarrow> (Some err, fs1)
              | Inr fs2 \<Rightarrow>
                  (case io_Copy_to_file fullPath reader fs2 of
                     (Some err, fs3) \<Rightarrow> (Some err, fs3)
                   | (None, fs3) \<Rightarrow> (None, fs3))))"

text \<open>
  \<open>Download\<close> and \<open>DownloadRange\<close> make a pipe, start the producer goroutine and return
  the pipe's read end with a \<open>nil\<close> error, whatever the path. The read end is
  \<open>PipeReader fullPath range\<close>: the file its producer will open and the range it will
  copy. \<open>PipeReader_ReadAll\<close> is what reading the pipe to its end gives once the producer
  has run on the file tree: the bytes, and the error the producer closed the pipe with.
\<close>

datatype PipeReader = PipeReader string "(int \<times> int) option"

definition LocalStorage_Download :: "LocalStorageConfig \<Rightarrow> string \<Rightarrow> error + PipeReader" where
  "LocalStorage_Download s filePath =
     (let fullPath = filepath_Join (BasePath s) filePath
      in Inr (PipeReader fullPath None))"

definition LocalStorage_DownloadRange ::
  "LocalStorageConfig \<Rightarrow> string \<Rightarrow> int \<Rightarrow> int \<Rightarrow> error + PipeReader" where
  "LocalStorage_DownloadRange s filePath offset size' =
     (let fullPath = filepath_Join (BasePath s) filePath
      in Inr (PipeReader fullPath (Some (offset, size'))))"

text \<open>
  \<open>file.Seek(offset, io.SeekStart)\<close> fails on a negative offset; \<open>io.LimitReader(file, n)\<close>
  delivers at most \<open>n\<close> bytes, none when \<open>n \<le> 0\<close>.
\<close>

definition file_Seek :: "int \<Rightarrow> bytes \<Rightarrow> error + bytes" where
  "file_Seek offset content = (if offset < 0 then Inl EINVAL else Inr (drop (nat offset) content))"

definition io_LimitReader :: "bytes \<Rightarrow> int \<Rightarrow> bytes" where
  "io_LimitReader content n = (if n \<le> 0 then [] else take (nat n) content)"

fun PipeReader_ReadAll :: "filesystem \<Rightarrow> PipeReader \<Rightarrow> bytes \<times> error option" where
  "PipeReader_ReadAll fs (PipeReader fullPath None) =
     (case os_Open fullPath fs of
        Inl err \<Rightarrow> ([], Some err)
      | Inr Directory \<Rightarrow> ([], Some EISDIR)
      | Inr (RegularFile content t) \<Rightarrow> (content, None))"
| "PipeReader_ReadAll fs (PipeReader fullPath (Some (offset, size'))) =
     (case os_Open fullPath fs of
        Inl err \<Rightarrow> ([], Some err)
      | Inr Directory \<Rightarrow>
          (if offset < 0 then ([], Some EINVAL)
           else if size' \<le> 0 then ([], None)
           else ([], Some EISDIR))
      | Inr (RegularFile content t) \<Rightarrow>
          (case file_Seek offset content of
             Inl err \<Rightarrow> ([], Some err)
           | Inr rest \<Rightarrow> (io_LimitReader rest size', None)))"

definition LocalStorage_Delete ::
  "LocalStorageConfig \<Rightarrow> string \<Rightarrow> filesystem \<Rightarrow> error option \<times> filesystem" where
  "LocalStorage_Delete s filePath fs =
     (let fullPath = filepath_Join (BasePath s) filePath
      in case os_Remove fullPath fs of
           (Some err, fs') \<Rightarrow> (Some err, fs')
         | (None, fs') \<Rightarrow> (None, fs'))"

definition LocalStorage_UpdateMetadata ::
  "LocalStorageConfig \<Rightarrow> string \<Rightarrow> FileMetadata \<Rightarrow> filesystem \<Rightarrow> error option \<times> filesystem" where
  "LocalStorage_UpdateMetadata s filePath metadata fs =
     (let fullPath = filepath_Join (BasePath s) filePath
      in if IsZero (ModTime metadata) then
           (case os_Chtimes fullPath (ModTime metadata) (ModTime metadata) fs of
              (Some err, fs') \<Rightarrow> (Some err, fs')
            | (None, fs') \<Rightarrow> (None, fs'))
         else (None, fs))"

text \<open>The modification time of the file at a path of the backend, if there is one.\<close>

definition mtime_of :: "LocalStorageConfig \<Rightarrow> string \<Rightarrow> filesystem \<Rightarrow> Time option" where
  "mtime_of s filePath fs =
     (case lookup fs (filepath_Join (BasePath s) filePath) of
        Some (RegularFile c t) \<Rightarrow> Some t
      | _ \<Rightarrow> None)"

section \<open>The object stores\<close>

text \<open>
  A bucket of a flat object store: its objects by key, whether the service can be reached
  (every request to an unreachable service fails with \<open>RemoteError\<close>), and the log of
  the requests that changed or tried to change an object, in the order they were served.
\<close>

datatype request = PutObjectReq string bytes | DeleteObjectReq string

record bucket =
  objects :: "string \<rightharpoonup> bytes"
  unreachable :: bool
  log :: "request list"

text \<open>
  A byte range of a GET request, as the \<open>Range\<close> header carries it: \<open>bytes=lo-hi\<close>
  (both ends inclusive), \<open>bytes=lo-\<close>, or the last \<open>n\<close> bytes \<open>bytes=-n\<close>. The service
  answers as HTTP lays down: a range whose first position lies in the object is served up
  to the object's end, one that starts at or after the end is refused, and a header that
  is no range at all (a negative position, or \<open>hi < lo\<close>) is ignored, so the whole object
  is returned.
\<close>

datatype http_Range = FromTo int int | From int | Suffix int

fun serve :: "bytes \<Rightarrow> http_Range option \<Rightarrow> error + bytes" where
  "serve c None = Inr c"
| "serve c (Some (FromTo lo hi)) =
     (if lo < 0 \<or> hi < lo then Inr c
      else if int (length c) \<le> lo then Inl InvalidRange
      else Inr (take (nat (hi + 1 - lo)) (drop (nat lo) c)))"
| "serve c (Some (From lo)) =
     (if lo < 0 then Inr c
      else if int (length c) \<le> lo then Inl InvalidRange
      else Inr (drop (nat lo) c))"
| "serve c (Some (Suffix n)) =
     (if n \<le> 0 then Inl InvalidRange
      else Inr (drop (length c - nat n) c))"

subsection \<open>The OSS client\<close>

text \<open>
  The client refuses the empty object key as an invalid argument: no call stores an
  object under it, and none is found there.
\<close>

datatype oss_Option = Prefix string | Marker string | Range int int

record ObjectProperties =
  Key :: string
  ObjectSize :: int
  LastModified :: Time

record ListObjectsResult =
  Objects :: "ObjectProperties list"
  NextMarker :: string

text \<open>The body of a GET response: the bytes the service sent.\<close>

datatype Body = Body bytes

fun Body_ReadAll :: "Body \<Rightarrow> bytes \<times> error option" where
  "Body_ReadAll (Body c) = (c, None)"

fun range_of :: "oss_Option list \<Rightarrow> http_Range option" where
  "range_of [] = None"
| "range_of (Range start end' # opts) = Some (FromTo start end')"
| "range_of (opt # opts) = range_of opts"

definition oss_PutObject :: "string \<Rightarrow> io_Reader \<Rightarrow> bucket \<Rightarrow> error option \<times> bucket" where
  "oss_PutObject key reader b =
     (if unreachable b then (Some RemoteError, b)
      else if key = [] then (Some InvalidArgument, b)
      else (case reader of
              Reader data (Some err) \<Rightarrow> (Some err, b)
            | Reader data None \<Rightarrow>
                (None, b\<lparr>objects := (objects b)(key \<mapsto> data),
                          log := log b @ [PutObjectReq key data]\<rparr>)))"

definition oss_GetObject :: "string \<Rightarrow> oss_Option list \<Rightarrow> bucket \<Rightarrow> error + Body" where
  "oss_GetObject key opts b =
     (if unreachable b then Inl RemoteError
      else (case objects b key of
              None \<Rightarrow> Inl (if key = [] then InvalidArgument else NoSuchKey)
            | Some c \<Rightarrow>
                (case serve c (range_of opts) of
                   Inl err \<Rightarrow> Inl err
                 | Inr part \<Rightarrow> Inr (Body part))))"

definition oss_DeleteObject :: "string \<Rightarrow> bucket \<Rightarrow> error option \<times> bucket" where
  "oss_DeleteObject key b =
     (if unreachable b then (Some RemoteError, b)
      else if key = [] then (Some InvalidArgument, b)
      else (None, b\<lparr>objects := (objects b)(key := None),
                     log := log b @ [DeleteObjectReq key]\<rparr>))"

definition oss_IsObjectExist :: "string \<Rightarrow> bucket \<Rightarrow> error + bool" where
  "oss_IsObjectExist key b =
     (if unreachable b then Inl RemoteError
      else if key = [] then Inl InvalidArgument
      else Inr (objects b key \<noteq> None))"

subsection \<open>\<open>OSSStorage\<close>\<close>

definition OSSStorage_Upload ::
  "OSSStorageConfig \<Rightarrow> string \<Rightarrow> io_Reader \<Rightarrow> bucket \<Rightarrow> error option \<times> bucket" where
  "OSSStorage_Upload s filePath reader b =
     (let fullKey = filepath_Join (BaseDir s) filePath
      in case oss_PutObject fullKey reader b of
           (Some err, b') \<Rightarrow> (Some err, b')
         | (None, b') \<Rightarrow> (None, b'))"

definition OSSStorage_Download :: "OSSStorageConfig \<Rightarrow> string \<Rightarrow> bucket \<Rightarrow> error + Body" where
  "OSSStorage_Download s filePath b =
     (let fullKey = filepath_Join (BaseDir s) filePath
      in case oss_GetObject fullKey [] b of
           Inl err \<Rightarrow> Inl err
         | Inr body \<Rightarrow> Inr body)"

definition OSSStorage_DownloadRange ::
  "OSSStorageConfig \<Rightarrow> string \<Rightarrow> int \<Rightarrow> int \<Rightarrow> bucket \<Rightarrow> error + Body" where
  "OSSStorage_DownloadRange s filePath offset size' b =
     (let fullKey = filepath_Join (BaseDir s) filePath
      in case oss_GetObject fullKey [Range offset (wrap64 (wrap64 (offset + size') - 1))] b of
           Inl err \<Rightarrow> Inl err
         | Inr body \<Rightarrow> Inr body)"

definition OSSStorage_Delete ::
  "OSSStorageConfig \<Rightarrow> string \<Rightarrow> bucket \<Rightarrow> error option \<times> bucket" where
  "OSSStorage_Delete s filePath b =
     (let fullKey = filepath_Join (BaseDir s) filePath
      in case oss_DeleteObject fullKey b of
           (Some err, b') \<Rightarrow> (Some err, b')
         | (None, b') \<Rightarrow> (None, b'))"

definition OSSStorage_CreateDir ::
  "OSSStorageConfig \<Rightarrow> string \<Rightarrow> bucket \<Rightarrow> error option \<times> bucket" where
  "OSSStorage_CreateDir s dirPath0 b =
     (let dirPath = ensureOSSDirPath dirPath0;
          fullKey = filepath_Join (BaseDir s) dirPath
      in case oss_IsObjectExist fullKey b of
           Inl err \<Rightarrow> (Some err, b)
         | Inr exist \<Rightarrow>
             if exist then (None, b)
             else (case oss_PutObject fullKey (Reader [] None) b of
                     (Some err, b') \<Rightarrow> (Some err, b')
                   | (None, b') \<Rightarrow> (None, b')))"

text \<open>
  The listing request of both loops: the prefix, and the marker when it is not empty.
  How the service pages its keys is a parameter \<open>ListObjects\<close> of the loops.
\<close>

definition listOptions :: "string \<Rightarrow> string \<Rightarrow> oss_Option list" where
  "listOptions fullKey marker = [Prefix fullKey] @ (if marker \<noteq> [] then [Marker marker] else [])"

text \<open>The inner loop of \<open>DeleteDir\<close> over the objects of one page.\<close>

fun DeleteDir_page ::
  "OSSStorageConfig \<Rightarrow> string \<Rightarrow> ObjectProperties list \<Rightarrow> bucket \<Rightarrow> error option \<times> bucket" where
  "DeleteDir_page s fullKey [] b = (None, b)"
| "DeleteDir_page s fullKey (object # rest) b =
     (if strings_HasPrefix (Key object) fullKey \<and> \<not> isDirectoryPlaceholder (Key object) fullKey
      then (case OSSStorage_Delete s (Key object) b of
              (Some err, b') \<Rightarrow> (Some (Errorf ''delete OSS object failed'' err), b')
            | (None, b') \<Rightarrow> DeleteDir_page s fullKey rest b')
      else DeleteDir_page s fullKey rest b)"

partial_function (option) DeleteDir_loop ::
  "(bucket \<Rightarrow> oss_Option list \<Rightarrow> error + ListObjectsResult) \<Rightarrow> OSSStorageConfig \<Rightarrow> string
     \<Rightarrow> string \<Rightarrow> bucket \<Rightarrow> (error option \<times> bucket) option" where
  "DeleteDir_loop ListObjects s fullKey marker b =
     (case ListObjects b (listOptions fullKey marker) of
        Inl err \<Rightarrow> Some (Some (Errorf ''list OSS directory failed'' err), b)
      | Inr objectListing \<Rightarrow>
          (case DeleteDir_page s fullKey (Objects objectListing) b of
             (Some err, b') \<Rightarrow> Some (Some err, b')
           | (None, b') \<Rightarrow>
               if length (Objects objectListing) < 1000 then Some (None, b')
               else DeleteDir_loop ListObjects s fullKey (NextMarker objectListing) b'))"

definition OSSStorage_DeleteDir ::
  "(bucket \<Rightarrow> oss_Option list \<Rightarrow> error + ListObjectsResult) \<Rightarrow> OSSStorageConfig \<Rightarrow> string
     \<Rightarrow> bucket \<Rightarrow> (error option \<times> bucket) option" where
  "OSSStorage_DeleteDir ListObjects s dirPath0 b =
     (let dirPath = ensureOSSDirPath dirPath0;
          fullKey = filepath_Join (BaseDir s) dirPath
      in DeleteDir_loop ListObjects s fullKey [] b)"

text \<open>The entries one page adds to the listing: the inner loop of \<open>ListDir\<close>.\<close>

definition ListDir_page :: "string \<Rightarrow> ObjectProperties list \<Rightarrow> FileMetadata list" where
  "ListDir_page fullKey objs =
     map (\<lambda>object. \<lparr>Name = drop (length fullKey) (Key object), Size = ObjectSize object,
                     ModTime = LastModified object, IsDir = False,
                     MIMEType = ''application/octet-stream''\<rparr>)
       (filter (\<lambda>object. strings_HasPrefix (Key object) fullKey
                  \<and> \<not> isDirectoryPlaceholder (Key object) fullKey) objs)"

partial_function (option) ListDir_loop ::
  "(oss_Option list \<Rightarrow> error + ListObjectsResult) \<Rightarrow> string \<Rightarrow> FileMetadata list \<Rightarrow> string
     \<Rightarrow> (error + FileMetadata list) option" where
  "ListDir_loop ListObjects fullKey fileMetas marker =
     (case ListObjects (listOptions fullKey marker) of
        Inl err \<Rightarrow> Some (Inl (Errorf ''get OSS directory listing failed'' err))
      | Inr objectListing \<Rightarrow>
          if length (Objects objectListing) < 1000
          then Some (Inr (fileMetas @ ListDir_page fullKey (Objects objectListing)))
          else ListDir_loop ListObjects fullKey
                 (fileMetas @ ListDir_page fullKey (Objects objectListing))
                 (NextMarker objectListing))"

definition OSSStorage_ListDir ::
  "(oss_Option list \<Rightarrow> error + ListObjectsResult) \<Rightarrow> OSSStorageConfig \<Rightarrow> string
     \<Rightarrow> (error + FileMetadata list) option" where
  "OSSStorage_ListDir ListObjects s dirPath0 =
     (let dirPath = ensureOSSDirPath dirPath0;
          fullKey = filepath_Join (BaseDir s) dirPath
      in ListDir_loop ListObjects fullKey [] [])"

subsection \<open>The MinIO client\<close>

text \<open>
  \<open>GetObjectOptions.SetRange(start, end)\<close> of the client library: \<open>start = 0\<close> with a
  negative \<open>end\<close> asks for the last \<open>-end\<close> bytes, a positive \<open>start\<close> with \<open>end = 0\<close>
  for everything from \<open>start\<close>, \<open>0 \<le> start \<le> end\<close> for that inclusive range, and
  every other pair is refused as an invalid argument.
\<close>

definition SetRange :: "int \<Rightarrow> int \<Rightarrow> error + http_Range" where
  "SetRange start end' =
     (if start = 0 \<and> end' < 0 then Inr (Suffix (- end'))
      else if 0 < start \<and> end' = 0 then Inr (From start)
      else if 0 \<le> start \<and> start \<le> end' then Inr (FromTo start end')
      else Inl InvalidArgument)"

text \<open>
  \<open>GetObject\<close> of this client checks the object name and returns a handle without
  asking the service; the request is made by the first read.
\<close>

datatype Object = Object string "http_Range option"

definition minio_GetObject :: "string \<Rightarrow> http_Range option \<Rightarrow> error + Object" where
  "minio_GetObject key opts = (if key = [] then Inl InvalidArgument else Inr (Object key opts))"

fun Object_ReadAll :: "bucket \<Rightarrow> Object \<Rightarrow> bytes \<times> error option" where
  "Object_ReadAll b (Object key opts) =
     (if unreachable b then ([], Some RemoteError)
      else (case objects b key of
              None \<Rightarrow> ([], Some NoSuchKey)
            | Some c \<Rightarrow>
                (case serve c opts of
                   Inl err \<Rightarrow> ([], Some err)
                 | Inr part \<Rightarrow> (part, None))))"

definition minio_PutObject :: "string \<Rightarrow> io_Reader \<Rightarrow> bucket \<Rightarrow> error option \<times> bucket" where
  "minio_PutObject key reader b =
     (if unreachable b then (Some RemoteError, b)
      else if key = [] then (Some InvalidArgument, b)
      else (case reader of
              Reader data (Some err) \<Rightarrow> (Some err, b)
            | Reader data None \<Rightarrow>
                (None, b\<lparr>objects := (objects b)(key \<mapsto> data),
                          log := log b @ [PutObjectReq key data]\<rparr>)))"

definition minio_RemoveObject :: "string \<Rightarrow> bucket \<Rightarrow> error option \<times> bucket" where
  "minio_RemoveObject key b =
     (if unreachable b then (Some RemoteError, b)
      else if key = [] then (Some InvalidArgument, b)
      else (None, b\<lparr>objects := (objects b)(key := None),
                     log := log b @ [DeleteObjectReq key]\<rparr>))"

definition minio_StatObject :: "string \<Rightarrow> bucket \<Rightarrow> error + int" where
  "minio_StatObject key b =
     (if unreachable b then Inl RemoteError
      else (case objects b key of
              None \<Rightarrow> Inl NoSuchKey
            | Some c \<Rightarrow> Inr (int (length c))))"

text \<open>
  An entry of the channel \<open>ListObjects\<close> returns: the fields of \<open>ObjectProperties\<close> the
  backend reads, and \<open>Err\<close>.
\<close>

record ObjectInfo = ObjectProperties +
  Err :: "error option"

subsection \<open>\<open>MinIOStorage\<close>\<close>

definition MinIOStorage_Upload ::
  "MinIOStorageConfig \<Rightarrow> string \<Rightarrow> io_Reader \<Rightarrow> bucket \<Rightarrow> error option \<times> bucket" where
  "MinIOStorage_Upload s filePath reader b =
     (let fullKey = filepath_Join (BaseDir s) filePath
      in case minio_PutObject fullKey reader b of
           (Some err, b') \<Rightarrow> (Some err, b')
         | (None, b') \<Rightarrow> (None, b'))"

definition MinIOStorage_Download :: "MinIOStorageConfig \<Rightarrow> string \<Rightarrow> error + Object" where
  "MinIOStorage_Download s filePath =
     (let fullKey = filepath_Join (BaseDir s) filePath
      in case minio_GetObject fullKey None of
           Inl err \<Rightarrow> Inl err
         | Inr object \<Rightarrow> Inr object)"

definition MinIOStorage_DownloadRange ::
  "MinIOStorageConfig \<Rightarrow> string \<Rightarrow> int \<Rightarrow> int \<Rightarrow> error + Object" where
  "MinIOStorage_DownloadRange s filePath offset size' =
     (let fullKey = filepath_Join (BaseDir s) filePath
      in case SetRange offset (wrap64 (wrap64 (offset + size') - 1)) of
           Inl err \<Rightarrow> Inl err
         | Inr opts \<Rightarrow>
             (case minio_GetObject fullKey (Some opts) of
                Inl err \<Rightarrow> Inl err
              | Inr object \<Rightarrow> Inr object))"

definition MinIOStorage_Delete ::
  "MinIOStorageConfig \<Rightarrow> string \<Rightarrow> bucket \<Rightarrow> error option \<times> bucket" where
  "MinIOStorage_Delete s filePath b =
     (let fullKey = filepath_Join (BaseDir s) filePath
      in case minio_RemoveObject fullKey b of
           (Some err, b') \<Rightarrow> (Some err, b')
         | (None, b') \<Rightarrow> (None, b'))"

definition MinIOStorage_CreateDir ::
  "MinIOStorageConfig \<Rightarrow> string \<Rightarrow> bucket \<Rightarrow> error option \<times> bucket" where
  "MinIOStorage_CreateDir s dirPath0 b =
     (let dirPath = ensureOSSDirPath dirPath0;
          fullKey = filepath_Join (BaseDir s) dirPath
      in case minio_StatObject fullKey b of
           Inr info \<Rightarrow> (None, b)
         | Inl e \<Rightarrow>
             (case MinIOStorage_Upload s dirPath (Reader [] None) b of
                (Some err, b') \<Rightarrow> (Some err, b')
              | (None, b') \<Rightarrow> (None, b')))"

text \<open>
  \<open>DeleteDir\<close> ranges over the channel of the objects under the prefix, listed
  recursively; \<open>ListObjects\<close> is what the service lists for a prefix.
\<close>

fun MinIO_DeleteDir_loop ::
  "MinIOStorageConfig \<Rightarrow> ObjectInfo list \<Rightarrow> bucket \<Rightarrow> error option \<times> bucket" where
  "MinIO_DeleteDir_loop s [] b = (None, b)"
| "MinIO_DeleteDir_loop s (object # rest) b =
     (case Err object of
        Some err \<Rightarrow> (Some err, b)
      | None \<Rightarrow>
          (case MinIOStorage_Delete s (Key object) b of
             (Some err, b') \<Rightarrow> (Some err, b')
           | (None, b') \<Rightarrow> MinIO_DeleteDir_loop s rest b'))"

definition MinIOStorage_DeleteDir ::
  "(bucket \<Rightarrow> string \<Rightarrow> ObjectInfo list) \<Rightarrow> MinIOStorageConfig \<Rightarrow> string \<Rightarrow> bucket
     \<Rightarrow> error option \<times> bucket" where
  "MinIOStorage_DeleteDir ListObjects s dirPath0 b =
     (let dirPath = ensureOSSDirPath dirPath0;
          fullKey = filepath_Join (BaseDir s) dirPath
      in MinIO_DeleteDir_loop s (ListObjects b fullKey) b)"

section \<open>Batch operations\<close>

text \<open>
  The three backends' batch methods are the same loops around their own single-item
  methods. A loop is written once, over the single-item operation, and each backend's
  method is the loop around its own. \<open>BatchUpload\<close> ranges over a Go map: \<open>files\<close> is the
  map's entries in the order that range visits them.
\<close>

fun BatchUpload_loop ::
  "(string \<Rightarrow> io_Reader \<Rightarrow> 's \<Rightarrow> error option \<times> 's) \<Rightarrow> (string \<times> io_Reader) list \<Rightarrow> 's
     \<Rightarrow> error option \<times> 's" where
  "BatchUpload_loop Upload [] st = (None, st)"
| "BatchUpload_loop Upload ((filePath, reader) # rest) st =
     (case Upload filePath reader st of
        (Some err, st') \<Rightarrow> (Some err, st')
      | (None, st') \<Rightarrow> BatchUpload_loop Upload rest st')"

fun BatchDelete_loop ::
  "(string \<Rightarrow> 's \<Rightarrow> error option \<times> 's) \<Rightarrow> string list \<Rightarrow> 's \<Rightarrow> error option \<times> 's" where
  "BatchDelete_loop Delete [] st = (None, st)"
| "BatchDelete_loop Delete (filePath # rest) st =
     (case Delete filePath st of
        (Some err, st') \<Rightarrow> (Some err, st')
      | (None, st') \<Rightarrow> BatchDelete_loop Delete rest st')"

text \<open>
  \<open>BatchDownload\<close> keeps the streams it opened in the map \<open>results\<close>, keyed by path: a
  second stream for a path replaces the first in the map. A stream is \<open>(i, reader)\<close>,
  the reader that the \<open>i\<close>-th \<open>Download\<close> of the call returned. On a failure the loop
  closes the streams of the map (each of the three reader types has \<open>Close\<close>) and
  returns no map: the result is the error and the streams closed.
\<close>

fun BatchDownload_loop ::
  "(string \<Rightarrow> error + 'r) \<Rightarrow> nat \<Rightarrow> string list \<Rightarrow> (string \<times> nat \<times> 'r) list
     \<Rightarrow> (error + (string \<times> nat \<times> 'r) list) \<times> (nat \<times> 'r) list" where
  "BatchDownload_loop Download i [] results = (Inr results, [])"
| "BatchDownload_loop Download i (filePath # rest) results =
     (case Download filePath of
        Inl err \<Rightarrow> (Inl err, map snd results)
      | Inr reader \<Rightarrow>
          BatchDownload_loop Download (Suc i) rest (AList.update filePath (i, reader) results))"

definition LocalStorage_BatchUpload ::
  "LocalStorageConfig \<Rightarrow> (string \<times> io_Reader) list \<Rightarrow> filesystem \<Rightarrow> error option \<times> filesystem" where
  "LocalStorage_BatchUpload s files fs = BatchUpload_loop (LocalStorage_Upload s) files fs"

definition LocalStorage_BatchDownload ::
  "LocalStorageConfig \<Rightarrow> string list
     \<Rightarrow> (error + (string \<times> nat \<times> PipeReader) list) \<times> (nat \<times> PipeReader) list" where
  "LocalStorage_BatchDownload s filePaths =
     BatchDownload_loop (LocalStorage_Download s) 0 filePaths []"

definition LocalStorage_BatchDelete ::
  "LocalStorageConfig \<Rightarrow> string list \<Rightarrow> filesystem \<Rightarrow> error option \<times> filesystem" where
  "LocalStorage_BatchDelete s filePaths fs = BatchDelete_loop (LocalStorage_Delete s) filePaths fs"

definition OSSStorage_BatchUpload ::
  "OSSStorageConfig \<Rightarrow> (string \<times> io_Reader) list \<Rightarrow> bucket \<Rightarrow> error option \<times> bucket" where
  "OSSStorage_BatchUpload s files b = BatchUpload_loop (OSSStorage_Upload s) files b"

definition OSSStorage_BatchDownload ::
  "OSSStorageConfig \<Rightarrow> string list \<Rightarrow> bucket
     \<Rightarrow> (error + (string \<times> nat \<times> Body) list) \<times> (nat \<times> Body) list" where
  "OSSStorage_BatchDownload s filePaths b =
     BatchDownload_loop (\<lambda>filePath. OSSStorage_Download s filePath b) 0 filePaths []"

definition OSSStorage_BatchDelete ::
  "OSSStorageConfig \<Rightarrow> string list \<Rightarrow> bucket \<Rightarrow> error option \<times> bucket" where
  "OSSStorage_BatchDelete s filePaths b = BatchDelete_loop (OSSStorage_Delete s) filePaths b"

definition MinIOStorage_BatchUpload ::
  "MinIOStorageConfig \<Rightarrow> (string \<times> io_Reader) list \<Rightarrow> bucket \<Rightarrow> error option \<times> bucket" where
  "MinIOStorage_BatchUpload s files b = BatchUpload_loop (MinIOStorage_Upload s) files b"

definition MinIOStorage_BatchDownload ::
  "MinIOStorageConfig \<Rightarrow> string list
     \<Rightarrow> (error + (string \<times> nat \<times> Object) list) \<times> (nat \<times> Object) list" where
  "MinIOStorage_BatchDownload s filePaths =
     BatchDownload_loop (MinIOStorage_Download s) 0 filePaths []"

definition MinIOStorage_BatchDelete ::
  "MinIOStorageConfig \<Rightarrow> string list \<Rightarrow> bucket \<Rightarrow> error option \<times> bucket" where
  "MinIOStorage_BatchDelete s filePaths b = BatchDelete_loop (MinIOStorage_Delete s) filePaths b"

section \<open>Notions used in the statements\<close>

text \<open>
  The marker of the \<open>i\<close>-th listing request of a paginated loop, when \<open>pg 0\<close>,
  \<open>pg 1\<close>, ... are the pages the service has returned: empty for the first request,
  the continuation token of the page before for every later one.
\<close>

definition marker_of :: "(nat \<Rightarrow> ListObjectsResult) \<Rightarrow> nat \<Rightarrow> string" where
  "marker_of pg i = (if i = 0 then [] else NextMarker (pg (i - 1)))"

text \<open>A listing entry that is reported as a plain file of the generic type.\<close>

definition plain_file :: "FileMetadata \<Rightarrow> bool" where
  "plain_file m = (IsDir m = False \<and> MIMEType m = ''application/octet-stream'')"

text \<open>An element of a cleaned path: not empty, and without a separator in it.\<close>

definition element :: "string \<Rightarrow> bool" where
  "element e = (e \<noteq> [] \<and> CHR ''/'' \<notin> set e)"

text \<open>
  The state after a single-item operation has been invoked on each entry of a list in
  turn, whatever each invocation returned.
\<close>

definition state_after :: "('a \<Rightarrow> 's \<Rightarrow> error option \<times> 's) \<Rightarrow> 'a list \<Rightarrow> 's \<Rightarrow> 's" where
  "state_after f xs st = fold (\<lambda>x s. snd (f x s)) xs st"

section \<open>Facts about the models\<close>

lemma lookup_update:
  "lookup (fs\<lparr>nodes := AList.update p n (nodes fs)\<rparr>) q =
     (if q = ''/'' \<or> q = ''.'' then Some Directory
      else if q = p then Some n else lookup fs q)"
  by (simp add: lookup_def update_conv')

lemma os_Create_not_special:
  "os_Create path fs = Inr fs' \<Longrightarrow> path \<noteq> ''/'' \<and> path \<noteq> ''.''"
  by (auto simp: os_Create_def lookup_def split: option.splits node.splits)

lemma os_Create_nodes:
  "os_Create path fs = Inr fs' \<Longrightarrow>
     fs' = fs\<lparr>nodes := AList.update path (RegularFile [] (clock fs)) (nodes fs)\<rparr>"
  by (auto simp: os_Create_def split: option.splits node.splits)

lemma LocalStorage_Upload_stores:
  assumes "LocalStorage_Upload s filePath (Reader data None) fs = (None, fs')"
  shows "\<exists>t. lookup fs' (filepath_Join (BasePath s) filePath) = Some (RegularFile data t)"
proof -
  let ?p = "filepath_Join (BasePath s) filePath"
  obtain fs1 where m: "os_MkdirAll (filepath_Dir ?p) fs = (None, fs1)"
    using assms by (auto simp: LocalStorage_Upload_def Let_def split: prod.splits option.splits)
  obtain fs2 where c: "os_Create ?p fs1 = Inr fs2"
    using assms m by (auto simp: LocalStorage_Upload_def Let_def split: sum.splits)
  have f: "fs' = fs2\<lparr>nodes := AList.update ?p (RegularFile data (clock fs2)) (nodes fs2)\<rparr>"
    using assms m c by (simp add: LocalStorage_Upload_def Let_def)
  have "?p \<noteq> ''/'' \<and> ?p \<noteq> ''.''" using c by (rule os_Create_not_special)
  then show ?thesis unfolding f lookup_update by simp
qed

lemma OSSStorage_Upload_stores:
  assumes "OSSStorage_Upload s filePath (Reader data None) b = (None, b')"
  shows "\<not> unreachable b' \<and> objects b' (filepath_Join (BaseDir s) filePath) = Some data"
  using assms
  by (cases "unreachable b"; cases "filepath_Join (BaseDir s) filePath = []")
     (auto simp: OSSStorage_Upload_def oss_PutObject_def Let_def)

lemma MinIOStorage_Upload_stores:
  assumes "MinIOStorage_Upload s filePath (Reader data None) b = (None, b')"
  shows "\<not> unreachable b' \<and> filepath_Join (BaseDir s) filePath \<noteq> []
     \<and> objects b' (filepath_Join (BaseDir s) filePath) = Some data"
  using assms
  by (cases "unreachable b"; cases "filepath_Join (BaseDir s) filePath = []")
     (auto simp: MinIOStorage_Upload_def minio_PutObject_def Let_def)

lemma wrap64_id: "- (2 ^ 63) \<le> x \<Longrightarrow> x < 2 ^ 63 \<Longrightarrow> wrap64 x = x"
  by (simp add: wrap64_def)

lemma range_end:
  assumes "0 \<le> offset" "1 \<le> size'" "offset + size' \<le> int (length c)" "int (length c) < 2 ^ 63"
  shows "wrap64 (wrap64 (offset + size') - 1) = offset + size' - 1"
proof -
  have "wrap64 (offset + size') = offset + size'"
    using assms by (intro wrap64_id) auto
  moreover have "wrap64 (offset + size' - 1) = offset + size' - 1"
    using assms by (intro wrap64_id) auto
  ultimately show ?thesis by simp
qed

lemma serve_range:
  assumes "0 \<le> offset" "1 \<le> size'" "offset + size' \<le> int (length c)"
  shows "serve c (Some (FromTo offset (offset + size' - 1))) = Inr (take (nat size') (drop (nat offset) c))"
  using assms by simp

lemma LocalStorage_DownloadRange_slice:
  assumes "lookup fs (filepath_Join (BasePath s) filePath) = Some (RegularFile c t)"
    and "0 \<le> offset"
  shows "\<exists>r. LocalStorage_DownloadRange s filePath offset size' = Inr r
     \<and> PipeReader_ReadAll fs r = (take (nat size') (drop (nat offset) c), None)"
  using assms
  by (simp add: LocalStorage_DownloadRange_def os_Open_def file_Seek_def io_LimitReader_def)

lemma OSSStorage_DownloadRange_slice:
  assumes "\<not> unreachable b" "objects b (filepath_Join (BaseDir s) filePath) = Some c"
    and "0 \<le> offset" "1 \<le> size'" "offset + size' \<le> int (length c)" "int (length c) < 2 ^ 63"
  shows "\<exists>r. OSSStorage_DownloadRange s filePath offset size' b = Inr r
     \<and> Body_ReadAll r = (take (nat size') (drop (nat offset) c), None)"
  using assms(1,2) serve_range [OF assms(3,4,5)] range_end [OF assms(3,4,5,6)]
  by (simp add: OSSStorage_DownloadRange_def oss_GetObject_def Let_def)

lemma SetRange_valid:
  assumes "0 \<le> offset" "1 \<le> size'"
  shows "SetRange offset (offset + size' - 1) = Inr (FromTo offset (offset + size' - 1))"
  using assms by (auto simp: SetRange_def)

lemma MinIOStorage_DownloadRange_slice:
  assumes "\<not> unreachable b" "objects b (filepath_Join (BaseDir s) filePath) = Some c"
    and "filepath_Join (BaseDir s) filePath \<noteq> []"
    and "0 \<le> offset" "1 \<le> size'" "offset + size' \<le> int (length c)" "int (length c) < 2 ^ 63"
  shows "\<exists>r. MinIOStorage_DownloadRange s filePath offset size' = Inr r
     \<and> Object_ReadAll b r = (take (nat size') (drop (nat offset) c), None)"
  using assms(1,2,3) serve_range [OF assms(4,5,6)] range_end [OF assms(4,5,6,7)]
    SetRange_valid [OF assms(4,5)]
  by (simp add: MinIOStorage_DownloadRange_def minio_GetObject_def Let_def)

lemma UpdateMetadata_nonzero_time:
  "\<not> IsZero (ModTime metadata) \<Longrightarrow> LocalStorage_UpdateMetadata s filePath metadata fs = (None, fs)"
  by (simp add: LocalStorage_UpdateMetadata_def)

lemma UpdateMetadata_keeps_file_tree:
  "snd (LocalStorage_UpdateMetadata s filePath metadata fs) = fs"
  by (auto simp: LocalStorage_UpdateMetadata_def os_Chtimes_def Let_def
      split: option.splits node.splits prod.splits)

lemma split_sep_nonempty: "split_sep p \<noteq> []"
  by (induction p) (auto split: list.splits)

lemma split_sep_no_sep: "e \<in> set (split_sep p) \<Longrightarrow> CHR ''/'' \<notin> set e"
proof (induction p arbitrary: e)
  case Nil
  then show ?case by simp
next
  case (Cons c cs)
  show ?case
  proof (cases "c = CHR ''/''")
    case True
    with Cons show ?thesis by auto
  next
    case False
    obtain x xs where s: "split_sep cs = x # xs"
      using split_sep_nonempty [of cs] by (cases "split_sep cs") auto
    with Cons False show ?thesis by auto
  qed
qed

lemma clean_step_elements:
  "list_all element out \<Longrightarrow> CHR ''/'' \<notin> set e \<Longrightarrow> list_all element (clean_step rooted out e)"
  by (auto simp: clean_step_def list_all_iff element_def dest: in_set_butlastD)

lemma foldl_clean_step_elements:
  "list_all element out \<Longrightarrow> \<forall>e \<in> set es. CHR ''/'' \<notin> set e \<Longrightarrow>
     list_all element (foldl (clean_step rooted) out es)"
  by (induction es arbitrary: out) (simp_all add: clean_step_elements)

lemma element_last: "element e \<Longrightarrow> e \<noteq> [] \<and> last e \<noteq> CHR ''/''"
  by (metis element_def last_in_set)

lemma join_sep_last:
  "out \<noteq> [] \<Longrightarrow> list_all element out \<Longrightarrow>
     join_sep out \<noteq> [] \<and> last (join_sep out) \<noteq> CHR ''/''"
  by (induction out rule: join_sep.induct) (auto dest: element_last)

lemma filepath_Clean_no_trailing_separator:
  "filepath_Clean path = ''/'' \<or> (filepath_Clean path \<noteq> [] \<and> last (filepath_Clean path) \<noteq> CHR ''/'')"
proof (cases "path = []")
  case True
  then show ?thesis by (simp add: filepath_Clean_def)
next
  case False
  define rooted where "rooted = (hd path = CHR ''/'')"
  define out where "out = foldl (clean_step rooted) [] (split_sep path)"
  have el: "list_all element out"
    unfolding out_def by (rule foldl_clean_step_elements) (simp_all add: split_sep_no_sep)
  have c: "filepath_Clean path =
      (if rooted then ''/'' @ join_sep out else if out = [] then ''.'' else join_sep out)"
    using False by (simp add: filepath_Clean_def Let_def rooted_def out_def)
  show ?thesis
  proof (cases "out = []")
    case True
    then show ?thesis by (simp add: c)
  next
    case False
    from join_sep_last [OF False el] show ?thesis by (simp add: c)
  qed
qed

lemma filepath_Join_no_trailing_separator:
  "filepath_Join a b = ''/'' \<or> filepath_Join a b = []
     \<or> last (filepath_Join a b) \<noteq> CHR ''/''"
  using filepath_Clean_no_trailing_separator [of "a @ ''/'' @ b"]
    filepath_Clean_no_trailing_separator [of b]
  by (auto simp: filepath_Join_def)

section \<open>Round trip (C1)\<close>

lemma LocalStorage_round_trip:
  assumes "LocalStorage_Upload s filePath (Reader data None) fs = (None, fs')"
  shows "\<exists>r. LocalStorage_Download s filePath = Inr r \<and> PipeReader_ReadAll fs' r = (data, None)"
  using LocalStorage_Upload_stores [OF assms]
  by (auto simp: LocalStorage_Download_def os_Open_def)

lemma OSSStorage_round_trip:
  assumes "OSSStorage_Upload s filePath (Reader data None) b = (None, b')"
  shows "\<exists>r. OSSStorage_Download s filePath b' = Inr r \<and> Body_ReadAll r = (data, None)"
  using OSSStorage_Upload_stores [OF assms]
  by (simp add: OSSStorage_Download_def oss_GetObject_def Let_def)

lemma MinIOStorage_round_trip:
  assumes "MinIOStorage_Upload s filePath (Reader data None) b = (None, b')"
  shows "\<exists>r. MinIOStorage_Download s filePath = Inr r \<and> Object_ReadAll b' r = (data, None)"
  using MinIOStorage_Upload_stores [OF assms]
  by (simp add: MinIOStorage_Download_def minio_GetObject_def Let_def)

text \<open>
  C1. On every backend, for every byte sequence \<open>data\<close> and every path: when the upload
  of \<open>data\<close> (a reader that delivers \<open>data\<close> and then end of file) succeeds, the
  download of the same path returns a stream, and reading that stream on the state the
  upload left gives exactly \<open>data\<close> and no error.
\<close>

theorem round_trip_every_backend:
  "(LocalStorage_Upload ls filePath (Reader data None) fs = (None, fs') \<longrightarrow>
      (\<exists>r. LocalStorage_Download ls filePath = Inr r \<and> PipeReader_ReadAll fs' r = (data, None)))
   \<and> (OSSStorage_Upload os filePath (Reader data None) b = (None, b') \<longrightarrow>
      (\<exists>r. OSSStorage_Download os filePath b' = Inr r \<and> Body_ReadAll r = (data, None)))
   \<and> (MinIOStorage_Upload ms filePath (Reader data None) b = (None, b'') \<longrightarrow>
      (\<exists>r. MinIOStorage_Download ms filePath = Inr r \<and> Object_ReadAll b'' r = (data, None)))"
  using LocalStorage_round_trip OSSStorage_round_trip MinIOStorage_round_trip by blast

theorem round_trip_every_backend_witness:
  "LocalStorage_Upload \<lparr>BasePath = ''/data''\<rparr> ''a/b.txt'' (Reader [104, 105] None)
       \<lparr>nodes = [(''/data'', Directory)], clock = 7\<rparr>
     = (None, \<lparr>nodes = [(''/data'', Directory), (''/data/a'', Directory),
                        (''/data/a/b.txt'', RegularFile [104, 105] 7)], clock = 7\<rparr>)
   \<and> (\<exists>r. LocalStorage_Download \<lparr>BasePath = ''/data''\<rparr> ''a/b.txt'' = Inr r
         \<and> PipeReader_ReadAll
              \<lparr>nodes = [(''/data'', Directory), (''/data/a'', Directory),
                        (''/data/a/b.txt'', RegularFile [104, 105] 7)], clock = 7\<rparr> r
            = ([104, 105], None))
   \<and> OSSStorage_Upload
        \<lparr>Endpoint = ''e'', AccessKeyID = ''k'', AccessKeySecret = ''s'', Bucket = ''bk'',
         BaseDir = ''base''\<rparr> ''a/b.txt'' (Reader [104, 105] None)
        \<lparr>objects = Map.empty, unreachable = False, log = []\<rparr>
     = (None, \<lparr>objects = [''base/a/b.txt'' \<mapsto> [104, 105]], unreachable = False,
                log = [PutObjectReq ''base/a/b.txt'' [104, 105]]\<rparr>)
   \<and> (\<exists>r. OSSStorage_Download
              \<lparr>Endpoint = ''e'', AccessKeyID = ''k'', AccessKeySecret = ''s'', Bucket = ''bk'',
               BaseDir = ''base''\<rparr> ''a/b.txt''
              \<lparr>objects = [''base/a/b.txt'' \<mapsto> [104, 105]], unreachable = False,
               log = [PutObjectReq ''base/a/b.txt'' [104, 105]]\<rparr> = Inr r
         \<and> Body_ReadAll r = ([104, 105], None))
   \<and> MinIOStorage_Upload
        \<lparr>Endpoint = ''e'', AccessKeyID = ''k'', AccessKeySecret = ''s'', Bucket = ''bk'',
         BaseDir = ''base'', UseSSL = False\<rparr> ''a/b.txt'' (Reader [104, 105] None)
        \<lparr>objects = Map.empty, unreachable = False, log = []\<rparr>
     = (None, \<lparr>objects = [''base/a/b.txt'' \<mapsto> [104, 105]], unreachable = False,
                log = [PutObjectReq ''base/a/b.txt'' [104, 105]]\<rparr>)
   \<and> (\<exists>r. MinIOStorage_Download
              \<lparr>Endpoint = ''e'', AccessKeyID = ''k'', AccessKeySecret = ''s'', Bucket = ''bk'',
               BaseDir = ''base'', UseSSL = False\<rparr> ''a/b.txt'' = Inr r
         \<and> Object_ReadAll
              \<lparr>objects = [''base/a/b.txt'' \<mapsto> [104, 105]], unreachable = False,
               log = [PutObjectReq ''base/a/b.txt'' [104, 105]]\<rparr> r
            = ([104, 105], None))"
proof -
  have j: "filepath_Join ''base'' ''a/b.txt'' = ''base/a/b.txt''"
    by (simp add: filepath_Join_def filepath_Clean_def clean_step_def)
  have l: "LocalStorage_Upload \<lparr>BasePath = ''/data''\<rparr> ''a/b.txt'' (Reader [104, 105] None)
       \<lparr>nodes = [(''/data'', Directory)], clock = 7\<rparr>
     = (None, \<lparr>nodes = [(''/data'', Directory), (''/data/a'', Directory),
                        (''/data/a/b.txt'', RegularFile [104, 105] 7)], clock = 7\<rparr>)"
    by (simp add: LocalStorage_Upload_def filepath_Join_def filepath_Clean_def clean_step_def
       filepath_Dir_def os_MkdirAll_def dir_chain_def lookup_def os_Create_def upt_rec)
  have o: "OSSStorage_Upload
        \<lparr>Endpoint = ''e'', AccessKeyID = ''k'', AccessKeySecret = ''s'', Bucket = ''bk'',
         BaseDir = ''base''\<rparr> ''a/b.txt'' (Reader [104, 105] None)
        \<lparr>objects = Map.empty, unreachable = False, log = []\<rparr>
     = (None, \<lparr>objects = [''base/a/b.txt'' \<mapsto> [104, 105]], unreachable = False,
                log = [PutObjectReq ''base/a/b.txt'' [104, 105]]\<rparr>)"
    by (simp add: OSSStorage_Upload_def oss_PutObject_def j Let_def)
  have m: "MinIOStorage_Upload
        \<lparr>Endpoint = ''e'', AccessKeyID = ''k'', AccessKeySecret = ''s'', Bucket = ''bk'',
         BaseDir = ''base'', UseSSL = False\<rparr> ''a/b.txt'' (Reader [104, 105] None)
        \<lparr>objects = Map.empty, unreachable = False, log = []\<rparr>
     = (None, \<lparr>objects = [''base/a/b.txt'' \<mapsto> [104, 105]], unreachable = False,
                log = [PutObjectReq ''base/a/b.txt'' [104, 105]]\<rparr>)"
    by (simp add: MinIOStorage_Upload_def minio_PutObject_def j Let_def)
  show ?thesis
    using l o m
      round_trip_every_backend [of "\<lparr>BasePath = ''/data''\<rparr>" "''a/b.txt''" "[104, 105]"
        "\<lparr>nodes = [(''/data'', Directory)], clock = 7\<rparr>"
        "\<lparr>nodes = [(''/data'', Directory), (''/data/a'', Directory),
                        (''/data/a/b.txt'', RegularFile [104, 105] 7)], clock = 7\<rparr>"
        "\<lparr>Endpoint = ''e'', AccessKeyID = ''k'', AccessKeySecret = ''s'', Bucket = ''bk'',
         BaseDir = ''base''\<rparr>"
        "\<lparr>objects = Map.empty, unreachable = False, log = []\<rparr>"
        "\<lparr>objects = [''base/a/b.txt'' \<mapsto> [104, 105]], unreachable = False,
                log = [PutObjectReq ''base/a/b.txt'' [104, 105]]\<rparr>"
        "\<lparr>Endpoint = ''e'', AccessKeyID = ''k'', AccessKeySecret = ''s'', Bucket = ''bk'',
         BaseDir = ''base'', UseSSL = False\<rparr>"
        "\<lparr>objects = [''base/a/b.txt'' \<mapsto> [104, 105]], unreachable = False,
                log = [PutObjectReq ''base/a/b.txt'' [104, 105]]\<rparr>"]
    by blast
qed

section \<open>Ranged download (C2)\<close>

text \<open>
  C2, as amended. For an object with content \<open>c\<close> (of a length an \<open>int64\<close> holds), an
  offset \<open>0 \<le> offset\<close> and a size with \<open>offset + size \<le> length c\<close>: the filesystem
  backend's \<open>DownloadRange\<close> returns a stream that yields exactly the bytes
  \<open>c[offset .. offset+size)\<close>, and so do the two object-store backends when
  \<open>1 \<le> size\<close>, by asking for the inclusive range \<open>[offset, offset+size-1]\<close>.
\<close>

theorem DownloadRange_exact_range:
  assumes "0 \<le> offset" and "0 \<le> size'" and "offset + size' \<le> int (length c)"
    and "int (length c) < 2 ^ 63"
  shows "(lookup fs (filepath_Join (BasePath ls) filePath) = Some (RegularFile c t) \<longrightarrow>
            (\<exists>r. LocalStorage_DownloadRange ls filePath offset size' = Inr r
               \<and> PipeReader_ReadAll fs r = (take (nat size') (drop (nat offset) c), None)))
       \<and> (1 \<le> size' \<and> \<not> unreachable b \<and> objects b (filepath_Join (BaseDir os) filePath) = Some c \<longrightarrow>
            (\<exists>r. OSSStorage_DownloadRange os filePath offset size' b = Inr r
               \<and> Body_ReadAll r = (take (nat size') (drop (nat offset) c), None)))
       \<and> (1 \<le> size' \<and> \<not> unreachable b \<and> objects b (filepath_Join (BaseDir ms) filePath) = Some c
            \<and> filepath_Join (BaseDir ms) filePath \<noteq> [] \<longrightarrow>
            (\<exists>r. MinIOStorage_DownloadRange ms filePath offset size' = Inr r
               \<and> Object_ReadAll b r = (take (nat size') (drop (nat offset) c), None)))"
  using LocalStorage_DownloadRange_slice [of fs ls filePath c t offset size']
    OSSStorage_DownloadRange_slice [of b os filePath c offset size']
    MinIOStorage_DownloadRange_slice [of b ms filePath c offset size'] assms
  by blast

theorem DownloadRange_exact_range_witness:
  "(\<exists>r. LocalStorage_DownloadRange \<lparr>BasePath = ''/data''\<rparr> ''f'' 1 3 = Inr r
       \<and> PipeReader_ReadAll \<lparr>nodes = [(''/data/f'', RegularFile [10, 11, 12, 13, 14] 7)], clock = 7\<rparr> r
          = ([11, 12, 13], None))
   \<and> (\<exists>r. OSSStorage_DownloadRange
            \<lparr>Endpoint = ''e'', AccessKeyID = ''k'', AccessKeySecret = ''s'', Bucket = ''bk'',
             BaseDir = ''base''\<rparr> ''f'' 1 3
            \<lparr>objects = [''base/f'' \<mapsto> [10, 11, 12, 13, 14]], unreachable = False, log = []\<rparr> = Inr r
       \<and> Body_ReadAll r = ([11, 12, 13], None))
   \<and> (\<exists>r. MinIOStorage_DownloadRange
            \<lparr>Endpoint = ''e'', AccessKeyID = ''k'', AccessKeySecret = ''s'', Bucket = ''bk'',
             BaseDir = ''base'', UseSSL = False\<rparr> ''f'' 1 3 = Inr r
       \<and> Object_ReadAll
            \<lparr>objects = [''base/f'' \<mapsto> [10, 11, 12, 13, 14]], unreachable = False, log = []\<rparr> r
          = ([11, 12, 13], None))"
proof -
  have j: "filepath_Join ''base'' ''f'' = ''base/f''" "filepath_Join ''/data'' ''f'' = ''/data/f''"
    by (simp_all add: filepath_Join_def filepath_Clean_def clean_step_def)
  have t: "take (nat 3) (drop (nat 1) [10, 11, 12, 13, 14 :: 8 word]) = [11, 12, 13]"
    by simp
  have l: "lookup \<lparr>nodes = [(''/data/f'', RegularFile [10, 11, 12, 13, 14] 7)], clock = 7\<rparr>
      (filepath_Join (BasePath \<lparr>BasePath = ''/data''\<rparr>) ''f'') = Some (RegularFile [10, 11, 12, 13, 14] 7)"
    by (simp add: j lookup_def)
  show ?thesis
    using DownloadRange_exact_range [of 1 3 "[10, 11, 12, 13, 14]"
        "\<lparr>nodes = [(''/data/f'', RegularFile [10, 11, 12, 13, 14] 7)], clock = 7\<rparr>"
        "\<lparr>BasePath = ''/data''\<rparr>" "''f''" 7
        "\<lparr>objects = [''base/f'' \<mapsto> [10, 11, 12, 13, 14]], unreachable = False, log = []\<rparr>"
        "\<lparr>Endpoint = ''e'', AccessKeyID = ''k'', AccessKeySecret = ''s'', Bucket = ''bk'',
             BaseDir = ''base''\<rparr>"
        "\<lparr>Endpoint = ''e'', AccessKeyID = ''k'', AccessKeySecret = ''s'', Bucket = ''bk'',
             BaseDir = ''base'', UseSSL = False\<rparr>"] l
    unfolding t by (simp add: j)
qed

text \<open>
  C2 as stated fails at size \<open>0\<close>: for an object of 11 bytes, offset \<open>5\<close> and size \<open>0\<close>
  the MinIO backend computes the range \<open>[5, 4]\<close>, which \<open>SetRange\<close> refuses, and
  \<open>DownloadRange\<close> returns that error and no stream.
\<close>

theorem DownloadRange_zero_size_counterexample:
  "(5::int) + 0 \<le> int (length [1, 2, 3, 4, 5, 6, 7, 8, 9, 10, 11 :: 8 word])
   \<and> objects \<lparr>objects = [''base/f'' \<mapsto> [1, 2, 3, 4, 5, 6, 7, 8, 9, 10, 11]],
               unreachable = False, log = []\<rparr>
        (filepath_Join ''base'' ''f'') = Some [1, 2, 3, 4, 5, 6, 7, 8, 9, 10, 11]
   \<and> MinIOStorage_DownloadRange
        \<lparr>Endpoint = ''e'', AccessKeyID = ''k'', AccessKeySecret = ''s'', Bucket = ''bk'',
         BaseDir = ''base'', UseSSL = False\<rparr> ''f'' 5 0 = Inl InvalidArgument"
  by (simp add: MinIOStorage_DownloadRange_def SetRange_def wrap64_def
      filepath_Join_def filepath_Clean_def clean_step_def)

section \<open>Metadata update of the filesystem backend (C5)\<close>

text \<open>
  C5, at a file whose modification time is \<open>100\<close>: \<open>UpdateMetadata\<close> with the non-zero
  time \<open>200\<close> returns success and leaves the file tree as it was, the modification time
  still \<open>100\<close>. The source calls \<open>os.Chtimes\<close> under \<open>IsZero\<close>, where the negation is
  meant: the only time it passes on is the zero time, which sets nothing.
\<close>

theorem UpdateMetadata_ignores_given_time:
  "\<not> IsZero 200
   \<and> mtime_of \<lparr>BasePath = ''/data''\<rparr> ''f''
        \<lparr>nodes = [(''/data/f'', RegularFile [1, 2] 100)], clock = 300\<rparr> = Some 100
   \<and> LocalStorage_UpdateMetadata \<lparr>BasePath = ''/data''\<rparr> ''f''
        \<lparr>Name = ''f'', Size = 2, ModTime = 200, IsDir = False, MIMEType = []\<rparr>
        \<lparr>nodes = [(''/data/f'', RegularFile [1, 2] 100)], clock = 300\<rparr>
      = (None, \<lparr>nodes = [(''/data/f'', RegularFile [1, 2] 100)], clock = 300\<rparr>)"
  by (simp add: LocalStorage_UpdateMetadata_def IsZero_def mtime_of_def lookup_def
      filepath_Join_def filepath_Clean_def clean_step_def)

section \<open>Download of a missing file (C6)\<close>






section \<open>Backend selection (C7)\<close>

text \<open>
  The temporary directory, which only the defaults mention, has no influence on what
  \<open>GetStorage\<close> returns; with both modes empty and no option, the result is decided by
  the receiver's own base path.
\<close>

lemma GetStorage_ignores_TempDir:
  "GetStorage (env\<lparr>TempDir := t\<rparr>) s opts = GetStorage env s opts"
proof -
  have n: "NewOSSStorage (env\<lparr>TempDir := t\<rparr>) = NewOSSStorage env"
    "NewMinIOStorage (env\<lparr>TempDir := t\<rparr>) = NewMinIOStorage env"
    by (simp_all add: NewOSSStorage_def NewMinIOStorage_def fun_eq_iff)
  define s1 where "s1 = fold (\<lambda>opt s. opt s) opts s"
  show ?thesis
  proof (cases "AssignMode s1 = []")
    case True
    then show ?thesis
      unfolding GetStorage_def n s1_def [symmetric] by (cases "Mode s1 = []") simp_all
  next
    case False
    then show ?thesis
      unfolding GetStorage_def n s1_def [symmetric] by simp
  qed
qed

lemma GetStorage_both_modes_empty:
  assumes "Mode s = []" and "AssignMode s = []"
  shows "GetStorage env s [] =
     (if BasePath (LocalCfg s) = [] then (s, [], None)
      else (s, BasePath (LocalCfg s), Some (LocalStorage (LocalCfg s))))"
  using assms by (simp add: GetStorage_def MinIO_def OSS_def NewLocalStorage_def)

text \<open>
  C7, at the zero configuration: with both modes empty and no option given, the defaults
  are assigned to the parameter list and never applied, so the receiver keeps its empty
  base path and \<open>GetStorage\<close> returns the empty base path and no instance, whatever the
  temporary directory is.
\<close>

theorem GetStorage_zero_config_no_instance:
  "snd (GetStorage \<lparr>TempDir = ''/tmp'', oss_connects = (\<lambda>c. True), minio_connects = (\<lambda>c. True)\<rparr>
          \<lparr>Mode = [], AssignMode = [], MaxSize = 0,
           LocalCfg = \<lparr>BasePath = []\<rparr>,
           Minio = \<lparr>Endpoint = [], AccessKeyID = [], AccessKeySecret = [], Bucket = [],
                    BaseDir = [], UseSSL = False\<rparr>,
           Oss = \<lparr>Endpoint = [], AccessKeyID = [], AccessKeySecret = [], Bucket = [],
                  BaseDir = []\<rparr>\<rparr> [])
     = ([], None)"
  by (simp add: GetStorage_def MinIO_def OSS_def)

section \<open>The paginated listing of the OSS backend (C3, C10)\<close>

lemma ListDir_loop_reaches_short_page:
  assumes pages: "\<forall>i\<le>k. ListObjects (listOptions fullKey (marker_of pg i)) = Inr (pg i)"
    and full: "\<forall>i<k. 1000 \<le> length (Objects (pg i))"
    and short: "length (Objects (pg k)) < 1000"
  shows "j \<le> k \<Longrightarrow>
    ListDir_loop ListObjects fullKey acc (marker_of pg j)
      = Some (Inr (acc @ concat (map (\<lambda>i. ListDir_page fullKey (Objects (pg i))) [j..<Suc k])))"
proof (induction "k - j" arbitrary: j acc)
  case 0
  then have jk: "j = k" by simp
  have "ListObjects (listOptions fullKey (marker_of pg k)) = Inr (pg k)"
    using pages by simp
  then show ?case
    unfolding jk using short by (subst ListDir_loop.simps) simp
next
  case (Suc d)
  then have lt: "j < k" and d: "d = k - Suc j" and le: "Suc j \<le> k" by simp_all
  have p: "ListObjects (listOptions fullKey (marker_of pg j)) = Inr (pg j)"
    using pages lt by simp
  have f: "\<not> length (Objects (pg j)) < 1000"
    using full lt by (simp add: not_less)
  have m: "NextMarker (pg j) = marker_of pg (Suc j)"
    by (simp add: marker_of_def)
  have "ListDir_loop ListObjects fullKey acc (marker_of pg j)
      = ListDir_loop ListObjects fullKey (acc @ ListDir_page fullKey (Objects (pg j)))
          (marker_of pg (Suc j))"
    by (subst ListDir_loop.simps) (simp add: p f m)
  also have "\<dots> = Some (Inr ((acc @ ListDir_page fullKey (Objects (pg j)))
        @ concat (map (\<lambda>i. ListDir_page fullKey (Objects (pg i))) [Suc j..<Suc k])))"
    using Suc.hyps(1) [OF d le] .
  also have "\<dots> = Some (Inr (acc @ concat (map (\<lambda>i. ListDir_page fullKey (Objects (pg i))) [j..<Suc k])))"
    using lt by (simp add: upt_conv_Cons)
  finally show ?case .
qed

text \<open>A listing request that fails ends the loop with the error, wrapped.\<close>

lemma ListDir_loop_listing_error:
  assumes pages: "\<forall>i<k. ListObjects (listOptions fullKey (marker_of pg i)) = Inr (pg i)
      \<and> 1000 \<le> length (Objects (pg i))"
    and failed: "ListObjects (listOptions fullKey (marker_of pg k)) = Inl err"
  shows "j \<le> k \<Longrightarrow>
    ListDir_loop ListObjects fullKey acc (marker_of pg j)
      = Some (Inl (Errorf ''get OSS directory listing failed'' err))"
proof (induction "k - j" arbitrary: j acc)
  case 0
  then have jk: "j = k" by simp
  show ?case
    unfolding jk using failed by (subst ListDir_loop.simps) simp
next
  case (Suc d)
  then have lt: "j < k" and d: "d = k - Suc j" and le: "Suc j \<le> k" by simp_all
  have p: "ListObjects (listOptions fullKey (marker_of pg j)) = Inr (pg j)"
    and f: "\<not> length (Objects (pg j)) < 1000"
    using pages lt by (simp_all add: not_less)
  have m: "NextMarker (pg j) = marker_of pg (Suc j)"
    by (simp add: marker_of_def)
  have "ListDir_loop ListObjects fullKey acc (marker_of pg j)
      = ListDir_loop ListObjects fullKey (acc @ ListDir_page fullKey (Objects (pg j)))
          (marker_of pg (Suc j))"
    by (subst ListDir_loop.simps) (simp add: p f m)
  also have "\<dots> = Some (Inl (Errorf ''get OSS directory listing failed'' err))"
    using Suc.hyps(1) [OF d le] .
  finally show ?case .
qed

lemma ListDir_loop_never_returns:
  assumes pages: "\<forall>i. ListObjects (listOptions fullKey (marker_of pg i)) = Inr (pg i)
      \<and> 1000 \<le> length (Objects (pg i))"
  shows "ListDir_loop ListObjects fullKey acc (marker_of pg j) = None"
proof (rule ccontr)
  assume "ListDir_loop ListObjects fullKey acc (marker_of pg j) \<noteq> None"
  then obtain y where y: "ListDir_loop ListObjects fullKey acc (marker_of pg j) = Some y"
    by auto
  have "ListObjects = ListObjects \<and> fullKey = fullKey \<and> (\<exists>n. marker_of pg j = marker_of pg n) \<longrightarrow> False"
  proof (rule ListDir_loop.raw_induct
      [where P = "\<lambda>L fk a mk r. L = ListObjects \<and> fk = fullKey \<and> (\<exists>n. mk = marker_of pg n) \<longrightarrow> False",
        OF _ y])
    fix loop L fk a mk and r :: "error + FileMetadata list"
    assume IH: "\<And>L fk a mk r. loop L fk a mk = Some r \<Longrightarrow>
        L = ListObjects \<and> fk = fullKey \<and> (\<exists>n. mk = marker_of pg n) \<longrightarrow> False"
      and body: "(case L (listOptions fk mk) of
          Inl err \<Rightarrow> Some (Inl (Errorf ''get OSS directory listing failed'' err))
        | Inr objectListing \<Rightarrow>
            if length (Objects objectListing) < 1000
            then Some (Inr (a @ ListDir_page fk (Objects objectListing)))
            else loop L fk (a @ ListDir_page fk (Objects objectListing))
                   (NextMarker objectListing)) = Some r"
    show "L = ListObjects \<and> fk = fullKey \<and> (\<exists>n. mk = marker_of pg n) \<longrightarrow> False"
    proof
      assume h: "L = ListObjects \<and> fk = fullKey \<and> (\<exists>n. mk = marker_of pg n)"
      then obtain n where n: "mk = marker_of pg n" by blast
      have p: "L (listOptions fk mk) = Inr (pg n)" and f: "\<not> length (Objects (pg n)) < 1000"
        using pages h n by (simp_all add: not_less)
      have "loop ListObjects fullKey (a @ ListDir_page fullKey (Objects (pg n)))
          (marker_of pg (Suc n)) = Some r"
        using body h p f by (simp add: marker_of_def)
      from IH [OF this] show False by blast
    qed
  qed
  then show False by blast
qed

lemma HasPrefix_take: "strings_HasPrefix key prefix \<longleftrightarrow> take (length prefix) key = prefix"
proof
  assume "strings_HasPrefix key prefix"
  then show "take (length prefix) key = prefix" by (simp add: strings_HasPrefix_def)
next
  assume t: "take (length prefix) key = prefix"
  have "length (take (length prefix) key) = min (length key) (length prefix)" by simp
  with t have "length prefix \<le> length key" by simp
  with t show "strings_HasPrefix key prefix" by (simp add: strings_HasPrefix_def)
qed

lemma listOptions_request:
  "listOptions fullKey marker = Prefix fullKey # (if marker = [] then [] else [Marker marker])"
  by (simp add: listOptions_def)

lemma ListDir_page_survivors:
  "ListDir_page fullKey objs =
     map (\<lambda>object. \<lparr>Name = drop (length fullKey) (Key object), Size = ObjectSize object,
                     ModTime = LastModified object, IsDir = False,
                     MIMEType = ''application/octet-stream''\<rparr>)
       (filter (\<lambda>object. take (length fullKey) (Key object) = fullKey
                  \<and> Key object \<noteq> fullKey \<and> Key object \<noteq> fullKey @ ''/'') objs)"
  by (simp add: ListDir_page_def HasPrefix_take isDirectoryPlaceholder_def)

text \<open>
  C3. Let \<open>fullKey\<close> be the prefix \<open>ListDir\<close> lists under, and let \<open>pg 0\<close>, \<open>pg 1\<close>, ... be
  the pages the object store returns to these requests: the first is the prefix alone,
  and each later one is the prefix together with the marker set to the continuation
  token of the page before it (the prefix alone when that token is empty). If \<open>pg k\<close> is
  the first page with fewer than 1000 objects, the loop returns after that page, and its
  result is, page by page from \<open>pg 0\<close> to \<open>pg k\<close>, an entry for each object whose key
  starts with the prefix and is neither the prefix nor the prefix followed by the
  separator, named by the key without the prefix. If every page has 1000 objects or more,
  the loop never returns.
\<close>

theorem OSS_ListDir_pagination:
  "(fullKey = filepath_Join (BaseDir s) (ensureOSSDirPath dirPath)
      \<and> (\<forall>i\<le>k. ListObjects (Prefix fullKey #
                    (if marker_of pg i = [] then [] else [Marker (marker_of pg i)])) = Inr (pg i))
      \<and> (\<forall>i<k. 1000 \<le> length (Objects (pg i)))
      \<and> length (Objects (pg k)) < 1000
     \<longrightarrow> OSSStorage_ListDir ListObjects s dirPath
          = Some (Inr (concat (map (\<lambda>i.
               map (\<lambda>object. \<lparr>Name = drop (length fullKey) (Key object),
                               Size = ObjectSize object, ModTime = LastModified object,
                               IsDir = False, MIMEType = ''application/octet-stream''\<rparr>)
                 (filter (\<lambda>object. take (length fullKey) (Key object) = fullKey
                            \<and> Key object \<noteq> fullKey \<and> Key object \<noteq> fullKey @ ''/'')
                    (Objects (pg i)))) [0..<Suc k]))))
   \<and> (fullKey = filepath_Join (BaseDir s) (ensureOSSDirPath dirPath)
      \<and> (\<forall>i. ListObjects (Prefix fullKey #
                  (if marker_of pg i = [] then [] else [Marker (marker_of pg i)])) = Inr (pg i)
            \<and> 1000 \<le> length (Objects (pg i)))
     \<longrightarrow> OSSStorage_ListDir ListObjects s dirPath = None)"
proof (intro conjI impI)
  assume a: "fullKey = filepath_Join (BaseDir s) (ensureOSSDirPath dirPath)
      \<and> (\<forall>i\<le>k. ListObjects (Prefix fullKey #
                    (if marker_of pg i = [] then [] else [Marker (marker_of pg i)])) = Inr (pg i))
      \<and> (\<forall>i<k. 1000 \<le> length (Objects (pg i)))
      \<and> length (Objects (pg k)) < 1000"
  have pages: "\<forall>i\<le>k. ListObjects (listOptions fullKey (marker_of pg i)) = Inr (pg i)"
    unfolding listOptions_request using a by blast
  have full: "\<forall>i<k. 1000 \<le> length (Objects (pg i))"
    and short: "length (Objects (pg k)) < 1000"
    using a by blast+
  have "ListDir_loop ListObjects fullKey [] (marker_of pg 0)
      = Some (Inr ([] @ concat (map (\<lambda>i. ListDir_page fullKey (Objects (pg i))) [0..<Suc k])))"
    using ListDir_loop_reaches_short_page [OF pages full short, of 0 "[]"] by simp
  then show "OSSStorage_ListDir ListObjects s dirPath
      = Some (Inr (concat (map (\<lambda>i.
               map (\<lambda>object. \<lparr>Name = drop (length fullKey) (Key object),
                               Size = ObjectSize object, ModTime = LastModified object,
                               IsDir = False, MIMEType = ''application/octet-stream''\<rparr>)
                 (filter (\<lambda>object. take (length fullKey) (Key object) = fullKey
                            \<and> Key object \<noteq> fullKey \<and> Key object \<noteq> fullKey @ ''/'')
                    (Objects (pg i)))) [0..<Suc k])))"
    using a by (simp add: OSSStorage_ListDir_def marker_of_def ListDir_page_survivors)
next
  assume a: "fullKey = filepath_Join (BaseDir s) (ensureOSSDirPath dirPath)
      \<and> (\<forall>i. ListObjects (Prefix fullKey #
                  (if marker_of pg i = [] then [] else [Marker (marker_of pg i)])) = Inr (pg i)
            \<and> 1000 \<le> length (Objects (pg i)))"
  have pages: "\<forall>i. ListObjects (listOptions fullKey (marker_of pg i)) = Inr (pg i)
      \<and> 1000 \<le> length (Objects (pg i))"
    unfolding listOptions_request using a by blast
  have "ListDir_loop ListObjects fullKey [] (marker_of pg 0) = None"
    using pages by (rule ListDir_loop_never_returns)
  then show "OSSStorage_ListDir ListObjects s dirPath = None"
    using a by (simp add: OSSStorage_ListDir_def marker_of_def)
qed

text \<open>
  A store that answers exactly the two requests of the loop and refuses every other one:
  the first page is full, and the second holds, beside one object under the prefix, the
  keys that the loop leaves out.
\<close>

theorem OSS_ListDir_pagination_witness:
  "OSSStorage_ListDir
     (\<lambda>opts. if opts = [Prefix ''base/a'']
        then Inr \<lparr>Objects = replicate 1000 \<lparr>Key = ''base/a/x'', ObjectSize = 1, LastModified = 5\<rparr>,
                  NextMarker = ''base/a/x''\<rparr>
        else if opts = [Prefix ''base/a'', Marker ''base/a/x'']
        then Inr \<lparr>Objects = [\<lparr>Key = ''base/a'', ObjectSize = 0, LastModified = 1\<rparr>,
                             \<lparr>Key = ''base/a/'', ObjectSize = 0, LastModified = 2\<rparr>,
                             \<lparr>Key = ''base/b'', ObjectSize = 3, LastModified = 3\<rparr>,
                             \<lparr>Key = ''base/a/y'', ObjectSize = 2, LastModified = 6\<rparr>],
                  NextMarker = []\<rparr>
        else Inl RemoteError)
     \<lparr>Endpoint = ''e'', AccessKeyID = ''k'', AccessKeySecret = ''s'', Bucket = ''bk'',
      BaseDir = ''base''\<rparr> ''a''
   = Some (Inr (replicate 1000 \<lparr>Name = ''/x'', Size = 1, ModTime = 5, IsDir = False,
                                  MIMEType = ''application/octet-stream''\<rparr>
                @ [\<lparr>Name = ''/y'', Size = 2, ModTime = 6, IsDir = False,
                    MIMEType = ''application/octet-stream''\<rparr>]))
   \<and> OSSStorage_ListDir
     (\<lambda>opts. if opts = [Prefix ''base/a''] \<or> opts = [Prefix ''base/a'', Marker ''base/a/x'']
        then Inr \<lparr>Objects = replicate 1000 \<lparr>Key = ''base/a/x'', ObjectSize = 1, LastModified = 5\<rparr>,
                  NextMarker = ''base/a/x''\<rparr>
        else Inl RemoteError)
     \<lparr>Endpoint = ''e'', AccessKeyID = ''k'', AccessKeySecret = ''s'', Bucket = ''bk'',
      BaseDir = ''base''\<rparr> ''a''
   = None"
proof -
  let ?s = "\<lparr>Endpoint = ''e'', AccessKeyID = ''k'', AccessKeySecret = ''s'', Bucket = ''bk'',
      BaseDir = ''base''\<rparr>"
  let ?full = "\<lparr>Objects = replicate 1000 \<lparr>Key = ''base/a/x'', ObjectSize = 1, LastModified = 5\<rparr>,
                  NextMarker = ''base/a/x''\<rparr>"
  let ?short = "\<lparr>Objects = [\<lparr>Key = ''base/a'', ObjectSize = 0, LastModified = 1\<rparr>,
                             \<lparr>Key = ''base/a/'', ObjectSize = 0, LastModified = 2\<rparr>,
                             \<lparr>Key = ''base/b'', ObjectSize = 3, LastModified = 3\<rparr>,
                             \<lparr>Key = ''base/a/y'', ObjectSize = 2, LastModified = 6\<rparr>],
                  NextMarker = []\<rparr>"
  let ?L1 = "\<lambda>opts. if opts = [Prefix ''base/a''] then Inr ?full
      else if opts = [Prefix ''base/a'', Marker ''base/a/x''] then Inr ?short
      else Inl RemoteError"
  let ?L2 = "\<lambda>opts. if opts = [Prefix ''base/a''] \<or> opts = [Prefix ''base/a'', Marker ''base/a/x'']
      then Inr ?full else Inl RemoteError"
  let ?pg1 = "\<lambda>i :: nat. if i = 0 then ?full else ?short"
  let ?pg2 = "\<lambda>i :: nat. ?full"
  have fk: "''base/a'' = filepath_Join (BaseDir ?s) (ensureOSSDirPath ''a'')"
    by (simp add: ensureOSSDirPath_def filepath_Join_def filepath_Clean_def clean_step_def)
  have h1: "(\<forall>i\<le>1. ?L1 (Prefix ''base/a'' #
                    (if marker_of ?pg1 i = [] then [] else [Marker (marker_of ?pg1 i)])) = Inr (?pg1 i))
      \<and> (\<forall>i<1. 1000 \<le> length (Objects (?pg1 i)))
      \<and> length (Objects (?pg1 1)) < 1000"
    by (auto simp: le_Suc_eq marker_of_def)
  have h2: "\<forall>i. ?L2 (Prefix ''base/a'' #
                  (if marker_of ?pg2 i = [] then [] else [Marker (marker_of ?pg2 i)])) = Inr (?pg2 i)
            \<and> 1000 \<le> length (Objects (?pg2 i))"
    by (simp add: marker_of_def)
  have r: "concat (map (\<lambda>i.
               map (\<lambda>object. \<lparr>Name = drop (length ''base/a'') (Key object),
                               Size = ObjectSize object, ModTime = LastModified object,
                               IsDir = False, MIMEType = ''application/octet-stream''\<rparr>)
                 (filter (\<lambda>object. take (length ''base/a'') (Key object) = ''base/a''
                            \<and> Key object \<noteq> ''base/a'' \<and> Key object \<noteq> ''base/a'' @ ''/'')
                    (Objects (?pg1 i)))) [0..<Suc 1])
      = replicate 1000 \<lparr>Name = ''/x'', Size = 1, ModTime = 5, IsDir = False,
                                  MIMEType = ''application/octet-stream''\<rparr>
                @ [\<lparr>Name = ''/y'', Size = 2, ModTime = 6, IsDir = False,
                    MIMEType = ''application/octet-stream''\<rparr>]"
    by (simp add: upt_rec)
  have a: "OSSStorage_ListDir ?L1 ?s ''a''
      = Some (Inr (concat (map (\<lambda>i.
               map (\<lambda>object. \<lparr>Name = drop (length ''base/a'') (Key object),
                               Size = ObjectSize object, ModTime = LastModified object,
                               IsDir = False, MIMEType = ''application/octet-stream''\<rparr>)
                 (filter (\<lambda>object. take (length ''base/a'') (Key object) = ''base/a''
                            \<and> Key object \<noteq> ''base/a'' \<and> Key object \<noteq> ''base/a'' @ ''/'')
                    (Objects (?pg1 i)))) [0..<Suc 1])))"
    using OSS_ListDir_pagination [of "''base/a''" ?s "''a''" 1 ?L1 ?pg1] fk h1 by blast
  have b: "OSSStorage_ListDir ?L2 ?s ''a'' = None"
    using OSS_ListDir_pagination [of "''base/a''" ?s "''a''" 1 ?L2 ?pg2] fk h2 by blast
  show ?thesis
    using a b unfolding r by simp
qed

lemma ListDir_page_plain: "list_all plain_file (ListDir_page fullKey objs)"
  by (simp add: ListDir_page_def plain_file_def list_all_iff)

lemma ListDir_loop_entries:
  assumes "ListDir_loop ListObjects fullKey fileMetas marker = Some y"
  shows "list_all plain_file fileMetas \<longrightarrow> (\<forall>ms. y = Inr ms \<longrightarrow> list_all plain_file ms)"
proof (rule ListDir_loop.raw_induct
    [where P = "\<lambda>L fk acc mk y. list_all plain_file acc \<longrightarrow> (\<forall>ms. y = Inr ms \<longrightarrow> list_all plain_file ms)",
      OF _ assms])
  fix loop ListObjects fullKey fileMetas marker and y :: "error + FileMetadata list"
  assume IH: "\<And>L fk acc mk y. loop L fk acc mk = Some y \<Longrightarrow>
      list_all plain_file acc \<longrightarrow> (\<forall>ms. y = Inr ms \<longrightarrow> list_all plain_file ms)"
    and body: "(case ListObjects (listOptions fullKey marker) of
        Inl err \<Rightarrow> Some (Inl (Errorf ''get OSS directory listing failed'' err))
      | Inr objectListing \<Rightarrow>
          if length (Objects objectListing) < 1000
          then Some (Inr (fileMetas @ ListDir_page fullKey (Objects objectListing)))
          else loop ListObjects fullKey
                 (fileMetas @ ListDir_page fullKey (Objects objectListing))
                 (NextMarker objectListing)) = Some y"
  show "list_all plain_file fileMetas \<longrightarrow> (\<forall>ms. y = Inr ms \<longrightarrow> list_all plain_file ms)"
  proof (intro impI allI)
    fix ms
    assume inv: "list_all plain_file fileMetas" and y: "y = Inr ms"
    show "list_all plain_file ms"
    proof (cases "ListObjects (listOptions fullKey marker)")
      case (Inl e)
      with body y show ?thesis by simp
    next
      case (Inr objectListing)
      have acc: "list_all plain_file (fileMetas @ ListDir_page fullKey (Objects objectListing))"
        using inv by (simp add: ListDir_page_plain)
      show ?thesis
      proof (cases "length (Objects objectListing) < 1000")
        case True
        with body Inr y have "ms = fileMetas @ ListDir_page fullKey (Objects objectListing)"
          by simp
        with acc show ?thesis by simp
      next
        case False
        with body Inr have "loop ListObjects fullKey
            (fileMetas @ ListDir_page fullKey (Objects objectListing)) (NextMarker objectListing)
            = Some y"
          by simp
        from IH [OF this] acc y show ?thesis by simp
      qed
    qed
  qed
qed

text \<open>
  C10. Every entry that the OSS backend's \<open>ListDir\<close> returns has \<open>IsDir = false\<close> and
  the MIME type \<open>application/octet-stream\<close>, also an entry for a key that ends in the
  separator.
\<close>

theorem OSS_ListDir_never_reports_directories:
  assumes "OSSStorage_ListDir ListObjects s dirPath = Some (Inr ms)"
  shows "\<forall>m \<in> set ms. IsDir m = False \<and> MIMEType m = ''application/octet-stream''"
  using ListDir_loop_entries [of ListObjects "filepath_Join (BaseDir s) (ensureOSSDirPath dirPath)"
      "[]" "[]" "Inr ms"] assms
  by (simp add: OSSStorage_ListDir_def list_all_iff plain_file_def)

theorem OSS_ListDir_never_reports_directories_witness:
  "OSSStorage_ListDir
        (\<lambda>opts. Inr \<lparr>Objects = [\<lparr>Key = ''base/a/sub/'', ObjectSize = 0, LastModified = 5\<rparr>,
                                \<lparr>Key = ''base/a/b.txt'', ObjectSize = 2, LastModified = 6\<rparr>],
                     NextMarker = []\<rparr>)
        \<lparr>Endpoint = ''e'', AccessKeyID = ''k'', AccessKeySecret = ''s'', Bucket = ''bk'',
         BaseDir = ''base''\<rparr> ''a''
     = Some (Inr [\<lparr>Name = ''/sub/'', Size = 0, ModTime = 5, IsDir = False,
                   MIMEType = ''application/octet-stream''\<rparr>,
                 \<lparr>Name = ''/b.txt'', Size = 2, ModTime = 6, IsDir = False,
                   MIMEType = ''application/octet-stream''\<rparr>])
   \<and> IsDir \<lparr>Name = ''/sub/'', Size = 0, ModTime = 5, IsDir = False,
             MIMEType = ''application/octet-stream''\<rparr> = False
   \<and> MIMEType \<lparr>Name = ''/sub/'', Size = 0, ModTime = 5, IsDir = False,
             MIMEType = ''application/octet-stream''\<rparr> = ''application/octet-stream''"
proof -
  let ?L = "\<lambda>opts :: oss_Option list.
      Inr \<lparr>Objects = [\<lparr>Key = ''base/a/sub/'', ObjectSize = 0, LastModified = 5\<rparr>,
                       \<lparr>Key = ''base/a/b.txt'', ObjectSize = 2, LastModified = 6\<rparr>],
            NextMarker = []\<rparr> :: error + ListObjectsResult"
  let ?s = "\<lparr>Endpoint = ''e'', AccessKeyID = ''k'', AccessKeySecret = ''s'', Bucket = ''bk'',
         BaseDir = ''base''\<rparr>"
  let ?ms = "[\<lparr>Name = ''/sub/'', Size = 0, ModTime = 5, IsDir = False,
                   MIMEType = ''application/octet-stream''\<rparr>,
                 \<lparr>Name = ''/b.txt'', Size = 2, ModTime = 6, IsDir = False,
                   MIMEType = ''application/octet-stream''\<rparr>]"
  have e: "OSSStorage_ListDir ?L ?s ''a'' = Some (Inr ?ms)"
    by (simp add: OSSStorage_ListDir_def ListDir_loop.simps ListDir_page_def
      strings_HasPrefix_def isDirectoryPlaceholder_def ensureOSSDirPath_def
      filepath_Join_def filepath_Clean_def clean_step_def)
  show ?thesis
    using e OSS_ListDir_never_reports_directories [OF e] by simp
qed

section \<open>Directory placeholders (C9)\<close>

lemma OSSStorage_CreateDir_placeholder:
  assumes "OSSStorage_CreateDir s dirPath b = (None, b')"
    and "objects b (filepath_Join (BaseDir s) (ensureOSSDirPath dirPath)) = None"
  shows "objects b' = (objects b)(filepath_Join (BaseDir s) (ensureOSSDirPath dirPath) \<mapsto> [])
     \<and> log b' = log b @ [PutObjectReq (filepath_Join (BaseDir s) (ensureOSSDirPath dirPath)) []]"
  using assms
  by (cases "unreachable b"; cases "filepath_Join (BaseDir s) (ensureOSSDirPath dirPath) = []")
     (auto simp: OSSStorage_CreateDir_def oss_IsObjectExist_def oss_PutObject_def Let_def)

lemma MinIOStorage_CreateDir_placeholder:
  assumes "MinIOStorage_CreateDir s dirPath b = (None, b')"
    and "objects b (filepath_Join (BaseDir s) (ensureOSSDirPath dirPath)) = None"
  shows "objects b' = (objects b)(filepath_Join (BaseDir s) (ensureOSSDirPath dirPath) \<mapsto> [])
     \<and> log b' = log b @ [PutObjectReq (filepath_Join (BaseDir s) (ensureOSSDirPath dirPath)) []]"
  using assms
  by (cases "unreachable b"; cases "filepath_Join (BaseDir s) (ensureOSSDirPath dirPath) = []")
     (auto simp: MinIOStorage_CreateDir_def minio_StatObject_def MinIOStorage_Upload_def
        minio_PutObject_def Let_def)

text \<open>
  C9, at base directory \<open>base\<close> and directory \<open>a\<close> on an empty bucket: both object-store
  backends create the placeholder as a zero-length object, but under the key \<open>base/a\<close>.
  \<open>ensureOSSDirPath\<close> appends the separator and \<open>filepath.Join\<close> cleans it away again,
  so the key does not end in the separator.
\<close>

theorem CreateDir_placeholder_key_has_no_trailing_separator:
  "OSSStorage_CreateDir
     \<lparr>Endpoint = ''e'', AccessKeyID = ''k'', AccessKeySecret = ''s'', Bucket = ''bk'',
      BaseDir = ''base''\<rparr> ''a''
     \<lparr>objects = Map.empty, unreachable = False, log = []\<rparr>
   = (None, \<lparr>objects = [''base/a'' \<mapsto> []], unreachable = False,
              log = [PutObjectReq ''base/a'' []]\<rparr>)
   \<and> MinIOStorage_CreateDir
     \<lparr>Endpoint = ''e'', AccessKeyID = ''k'', AccessKeySecret = ''s'', Bucket = ''bk'',
      BaseDir = ''base'', UseSSL = False\<rparr> ''a''
     \<lparr>objects = Map.empty, unreachable = False, log = []\<rparr>
   = (None, \<lparr>objects = [''base/a'' \<mapsto> []], unreachable = False,
              log = [PutObjectReq ''base/a'' []]\<rparr>)
   \<and> ensureOSSDirPath ''a'' = ''a/''
   \<and> filepath_Join ''base'' ''a/'' = ''base/a''
   \<and> last ''base/a'' \<noteq> CHR ''/''"
  by (simp add: OSSStorage_CreateDir_def oss_IsObjectExist_def oss_PutObject_def
      MinIOStorage_CreateDir_def minio_StatObject_def MinIOStorage_Upload_def minio_PutObject_def
      ensureOSSDirPath_def filepath_Join_def filepath_Clean_def clean_step_def Let_def)

section \<open>Deleting a directory on the object stores (C4)\<close>

lemma DeleteDir_page_log:
  assumes "\<not> unreachable b"
    and "\<forall>object \<in> set objs. filepath_Join (BaseDir s) (Key object) \<noteq> []"
  shows "fst (DeleteDir_page s fullKey objs b) = None
     \<and> \<not> unreachable (snd (DeleteDir_page s fullKey objs b))
     \<and> log (snd (DeleteDir_page s fullKey objs b))
        = log b @ map (\<lambda>object. DeleteObjectReq (filepath_Join (BaseDir s) (Key object)))
            (filter (\<lambda>object. strings_HasPrefix (Key object) fullKey
                \<and> \<not> isDirectoryPlaceholder (Key object) fullKey) objs)"
  using assms
  by (induction objs arbitrary: b)
     (simp_all add: OSSStorage_Delete_def oss_DeleteObject_def Let_def)

lemma MinIO_DeleteDir_loop_log:
  assumes "\<not> unreachable b" and "\<forall>object \<in> set objs. Err object = None
      \<and> filepath_Join (BaseDir s) (Key object) \<noteq> []"
  shows "fst (MinIO_DeleteDir_loop s objs b) = None
     \<and> log (snd (MinIO_DeleteDir_loop s objs b))
        = log b @ map (\<lambda>object. DeleteObjectReq (filepath_Join (BaseDir s) (Key object))) objs"
  using assms
  by (induction objs arbitrary: b)
     (simp_all add: MinIOStorage_Delete_def minio_RemoveObject_def Let_def)

text \<open>
  C4, at base directory \<open>base\<close> and directory \<open>a\<close>, when the service lists the keys
  \<open>base/a\<close> and \<open>base/a/b.txt\<close>: the OSS backend skips \<open>base/a\<close> and passes the listed key
  \<open>base/a/b.txt\<close> to \<open>Delete\<close>, which joins it onto the base directory once more, so the
  delete request goes to \<open>base/base/a/b.txt\<close> and the listed object stays in the bucket.
  The MinIO backend does the same without the placeholder filter: it asks for the deletion
  of \<open>base/base/a\<close> and \<open>base/base/a/b.txt\<close>.
\<close>

theorem DeleteDir_deletes_rejoined_keys:
  "(\<exists>b'. OSSStorage_DeleteDir
       (\<lambda>b opts. Inr \<lparr>Objects = [\<lparr>Key = ''base/a'', ObjectSize = 0, LastModified = 5\<rparr>,
                                 \<lparr>Key = ''base/a/b.txt'', ObjectSize = 1, LastModified = 6\<rparr>],
                      NextMarker = []\<rparr>)
       \<lparr>Endpoint = ''e'', AccessKeyID = ''k'', AccessKeySecret = ''s'', Bucket = ''bk'',
        BaseDir = ''base''\<rparr> ''a''
       \<lparr>objects = [''base/a'' \<mapsto> [], ''base/a/b.txt'' \<mapsto> [1]], unreachable = False, log = []\<rparr>
      = Some (None, b')
      \<and> log b' = [DeleteObjectReq ''base/base/a/b.txt'']
      \<and> objects b' ''base/a/b.txt'' = Some [1])
   \<and> (\<exists>b'. MinIOStorage_DeleteDir
       (\<lambda>b prefix. [\<lparr>Key = ''base/a'', ObjectSize = 0, LastModified = 5, Err = None\<rparr>,
                    \<lparr>Key = ''base/a/b.txt'', ObjectSize = 1, LastModified = 6, Err = None\<rparr>])
       \<lparr>Endpoint = ''e'', AccessKeyID = ''k'', AccessKeySecret = ''s'', Bucket = ''bk'',
        BaseDir = ''base'', UseSSL = False\<rparr> ''a''
       \<lparr>objects = [''base/a'' \<mapsto> [], ''base/a/b.txt'' \<mapsto> [1]], unreachable = False, log = []\<rparr>
      = (None, b')
      \<and> log b' = [DeleteObjectReq ''base/base/a'', DeleteObjectReq ''base/base/a/b.txt'']
      \<and> objects b' ''base/a/b.txt'' = Some [1])"
  by (simp add: OSSStorage_DeleteDir_def DeleteDir_loop.simps listOptions_def
      OSSStorage_Delete_def oss_DeleteObject_def
      MinIOStorage_DeleteDir_def MinIOStorage_Delete_def minio_RemoveObject_def
      strings_HasPrefix_def isDirectoryPlaceholder_def
      ensureOSSDirPath_def filepath_Join_def filepath_Clean_def clean_step_def Let_def)

section \<open>Batch operations fail fast (C8)\<close>

lemma state_after_Cons: "state_after f (x # xs) st = state_after f xs (snd (f x st))"
  by (simp add: state_after_def)

lemma state_after_Nil: "state_after f [] st = st"
  by (simp add: state_after_def)

lemma BatchDelete_loop_fail_fast:
  assumes "k < length filePaths"
    and "\<forall>i<k. fst (Delete (filePaths ! i) (state_after Delete (take i filePaths) st)) = None"
    and "fst (Delete (filePaths ! k) (state_after Delete (take k filePaths) st)) = Some err"
  shows "BatchDelete_loop Delete filePaths st
     = (Some err, state_after Delete (take (Suc k) filePaths) st)"
  using assms
proof (induction filePaths arbitrary: k st)
  case Nil
  then show ?case by simp
next
  case (Cons p ps)
  show ?case
  proof (cases k)
    case 0
    with Cons.prems(3) have "fst (Delete p st) = Some err"
      by (simp add: state_after_Nil)
    then show ?thesis
      using 0 by (cases "Delete p st") (simp add: state_after_Cons state_after_Nil)
  next
    case (Suc j)
    have ok: "fst (Delete p st) = None"
      using Cons.prems(2) [rule_format, of 0] Suc by (simp add: state_after_Nil)
    have j: "j < length ps" using Cons.prems(1) Suc by simp
    have before: "\<forall>i<j. fst (Delete (ps ! i) (state_after Delete (take i ps) (snd (Delete p st)))) = None"
    proof (intro allI impI)
      fix i assume "i < j"
      then have "Suc i < k" using Suc by simp
      from Cons.prems(2) [rule_format, OF this]
      show "fst (Delete (ps ! i) (state_after Delete (take i ps) (snd (Delete p st)))) = None"
        by (simp add: state_after_Cons)
    qed
    have at: "fst (Delete (ps ! j) (state_after Delete (take j ps) (snd (Delete p st)))) = Some err"
      using Cons.prems(3) Suc by (simp add: state_after_Cons)
    have "BatchDelete_loop Delete ps (snd (Delete p st))
        = (Some err, state_after Delete (take (Suc j) ps) (snd (Delete p st)))"
      by (rule Cons.IH [OF j before at])
    then show ?thesis
      using ok Suc by (cases "Delete p st") (simp add: state_after_Cons)
  qed
qed


lemma BatchUpload_loop_fail_fast:
  assumes "k < length files"
    and "\<forall>i<k. fst (case_prod Upload (files ! i) (state_after (case_prod Upload) (take i files) st)) = None"
    and "fst (case_prod Upload (files ! k) (state_after (case_prod Upload) (take k files) st)) = Some err"
  shows "BatchUpload_loop Upload files st
     = (Some err, state_after (case_prod Upload) (take (Suc k) files) st)"
  using assms
proof (induction files arbitrary: k st)
  case Nil
  then show ?case by simp
next
  case (Cons f fs)
  obtain p r where f: "f = (p, r)" by (cases f)
  show ?case
  proof (cases k)
    case 0
    with Cons.prems(3) have "fst (Upload p r st) = Some err"
      by (simp add: state_after_Nil f)
    then show ?thesis
      using 0 by (cases "Upload p r st") (simp add: state_after_Cons state_after_Nil f)
  next
    case (Suc j)
    have ok: "fst (Upload p r st) = None"
      using Cons.prems(2) [rule_format, of 0] Suc by (simp add: state_after_Nil f)
    have j: "j < length fs" using Cons.prems(1) Suc by simp
    have before: "\<forall>i<j. fst (case_prod Upload (fs ! i)
        (state_after (case_prod Upload) (take i fs) (snd (Upload p r st)))) = None"
    proof (intro allI impI)
      fix i assume "i < j"
      then have "Suc i < k" using Suc by simp
      from Cons.prems(2) [rule_format, OF this]
      show "fst (case_prod Upload (fs ! i)
          (state_after (case_prod Upload) (take i fs) (snd (Upload p r st)))) = None"
        by (simp add: state_after_Cons f)
    qed
    have at: "fst (case_prod Upload (fs ! j)
        (state_after (case_prod Upload) (take j fs) (snd (Upload p r st)))) = Some err"
      using Cons.prems(3) Suc by (simp add: state_after_Cons f)
    have "BatchUpload_loop Upload fs (snd (Upload p r st))
        = (Some err, state_after (case_prod Upload) (take (Suc j) fs) (snd (Upload p r st)))"
      by (rule Cons.IH [OF j before at])
    then show ?thesis
      using ok Suc by (cases "Upload p r st") (simp add: state_after_Cons f)
  qed
qed

lemma update_fresh: "k \<notin> fst ` set al \<Longrightarrow> AList.update k v al = al @ [(k, v)]"
  by (induction al) auto

lemma BatchDownload_loop_closes:
  assumes "k < length filePaths"
    and "distinct (take k filePaths)"
    and "set (take k filePaths) \<inter> fst ` set results = {}"
    and "\<forall>i<k. Download (filePaths ! i) = Inr (r i)"
    and "Download (filePaths ! k) = Inl err"
  shows "BatchDownload_loop Download n filePaths results
     = (Inl err, map snd results @ map (\<lambda>i. (n + i, r i)) [0..<k])"
  using assms
proof (induction filePaths arbitrary: k n results r)
  case Nil
  then show ?case by simp
next
  case (Cons p ps)
  show ?case
  proof (cases k)
    case 0
    with Cons.prems(5) show ?thesis by simp
  next
    case (Suc j)
    have d: "Download p = Inr (r 0)"
      using Cons.prems(4) [rule_format, of 0] Suc by simp
    have fresh: "p \<notin> fst ` set results"
      using Cons.prems(3) Suc by auto
    have u: "AList.update p (n, r 0) results = results @ [(p, (n, r 0))]"
      using fresh by (rule update_fresh)
    have j: "j < length ps" using Cons.prems(1) Suc by simp
    have dist: "distinct (take j ps)" and notin: "p \<notin> set (take j ps)"
      using Cons.prems(2) Suc by simp_all
    have disj: "set (take j ps) \<inter> fst ` set (results @ [(p, (n, r 0))]) = {}"
      using Cons.prems(3) Suc notin by auto
    have before: "\<forall>i<j. Download (ps ! i) = Inr (r (Suc i))"
      using Cons.prems(4) Suc by auto
    have at: "Download (ps ! j) = Inl err"
      using Cons.prems(5) Suc by simp
    have "BatchDownload_loop Download (Suc n) ps (results @ [(p, (n, r 0))])
        = (Inl err, map snd (results @ [(p, (n, r 0))])
             @ map (\<lambda>i. (Suc n + i, r (Suc i))) [0..<j])"
      by (rule Cons.IH [OF j dist disj before at])
    moreover have "map (\<lambda>i. (n + i, r i)) [0..<k]
        = (n, r 0) # map (\<lambda>i. (Suc n + i, r (Suc i))) [0..<j]"
      unfolding Suc by (simp add: upt_conv_Cons map_Suc_upt [symmetric] del: upt_Suc)
    ultimately show ?thesis
      using d u by simp
  qed
qed

text \<open>
  What holds of the three batch loops, for every single-item operation: when the operation
  succeeds on the entries before entry \<open>k\<close> and fails on entry \<open>k\<close>, \<open>BatchUpload\<close> and
  \<open>BatchDelete\<close> return entry \<open>k\<close>'s error and leave the state that invoking the operation
  on exactly the entries \<open>0\<close> to \<open>k\<close>, in order, produces: nothing is rolled back and no
  later entry is touched. \<open>BatchDownload\<close> returns entry \<open>k\<close>'s error and no result map,
  and, when the paths of the entries before \<open>k\<close> are pairwise distinct, it has closed
  exactly the streams that those entries opened.
\<close>

theorem Batch_fail_fast:
  "(k < length files
      \<and> (\<forall>i<k. fst (case_prod Upload (files ! i)
                  (state_after (case_prod Upload) (take i files) st)) = None)
      \<and> fst (case_prod Upload (files ! k)
              (state_after (case_prod Upload) (take k files) st)) = Some err
     \<longrightarrow> BatchUpload_loop Upload files st
          = (Some err, state_after (case_prod Upload) (take (Suc k) files) st))
   \<and> (k' < length filePaths
      \<and> (\<forall>i<k'. fst (Delete (filePaths ! i) (state_after Delete (take i filePaths) st')) = None)
      \<and> fst (Delete (filePaths ! k') (state_after Delete (take k' filePaths) st')) = Some err'
     \<longrightarrow> BatchDelete_loop Delete filePaths st'
          = (Some err', state_after Delete (take (Suc k') filePaths) st'))
   \<and> (k'' < length filePaths'
      \<and> distinct (take k'' filePaths')
      \<and> (\<forall>i<k''. Download (filePaths' ! i) = Inr (r i))
      \<and> Download (filePaths' ! k'') = Inl err''
     \<longrightarrow> BatchDownload_loop Download 0 filePaths' []
          = (Inl err'', map (\<lambda>i. (i, r i)) [0..<k'']))"
proof (intro conjI impI)
  assume "k < length files
      \<and> (\<forall>i<k. fst (case_prod Upload (files ! i)
                  (state_after (case_prod Upload) (take i files) st)) = None)
      \<and> fst (case_prod Upload (files ! k)
              (state_after (case_prod Upload) (take k files) st)) = Some err"
  then show "BatchUpload_loop Upload files st
          = (Some err, state_after (case_prod Upload) (take (Suc k) files) st)"
    by (intro BatchUpload_loop_fail_fast) simp_all
next
  assume "k' < length filePaths
      \<and> (\<forall>i<k'. fst (Delete (filePaths ! i) (state_after Delete (take i filePaths) st')) = None)
      \<and> fst (Delete (filePaths ! k') (state_after Delete (take k' filePaths) st')) = Some err'"
  then show "BatchDelete_loop Delete filePaths st'
          = (Some err', state_after Delete (take (Suc k') filePaths) st')"
    by (intro BatchDelete_loop_fail_fast) simp_all
next
  assume a: "k'' < length filePaths'
      \<and> distinct (take k'' filePaths')
      \<and> (\<forall>i<k''. Download (filePaths' ! i) = Inr (r i))
      \<and> Download (filePaths' ! k'') = Inl err''"
  have "BatchDownload_loop Download 0 filePaths' []
      = (Inl err'', map snd [] @ map (\<lambda>i. (0 + i, r i)) [0..<k''])"
    using a BatchDownload_loop_closes [of k'' filePaths' "[]" Download r err'' 0] by simp
  then show "BatchDownload_loop Download 0 filePaths' [] = (Inl err'', map (\<lambda>i. (i, r i)) [0..<k''])"
    by simp
qed

theorem Batch_fail_fast_witness:
  "OSSStorage_BatchUpload
      \<lparr>Endpoint = ''e'', AccessKeyID = ''k'', AccessKeySecret = ''s'', Bucket = ''bk'',
       BaseDir = ''base''\<rparr>
      [(''a'', Reader [1] None), (''b'', Reader [2] (Some ReadFailed)), (''c'', Reader [3] None)]
      \<lparr>objects = Map.empty, unreachable = False, log = []\<rparr>
     = (Some ReadFailed,
        \<lparr>objects = [''base/a'' \<mapsto> [1]], unreachable = False, log = [PutObjectReq ''base/a'' [1]]\<rparr>)
   \<and> LocalStorage_BatchDelete \<lparr>BasePath = ''/data''\<rparr> [''f'', ''missing'', ''g'']
      \<lparr>nodes = [(''/data'', Directory), (''/data/f'', RegularFile [1] 5),
                (''/data/g'', RegularFile [2] 6)], clock = 7\<rparr>
     = (Some ENOENT,
        \<lparr>nodes = [(''/data'', Directory), (''/data/g'', RegularFile [2] 6)], clock = 7\<rparr>)
   \<and> OSSStorage_BatchDownload
      \<lparr>Endpoint = ''e'', AccessKeyID = ''k'', AccessKeySecret = ''s'', Bucket = ''bk'',
       BaseDir = ''base''\<rparr> [''a'', ''b'', ''missing'', ''c'']
      \<lparr>objects = [''base/a'' \<mapsto> [1], ''base/b'' \<mapsto> [2], ''base/c'' \<mapsto> [3]],
       unreachable = False, log = []\<rparr>
     = (Inl NoSuchKey, [(0, Body [1]), (1, Body [2])])"
proof -
  let ?s = "\<lparr>Endpoint = ''e'', AccessKeyID = ''k'', AccessKeySecret = ''s'', Bucket = ''bk'',
       BaseDir = ''base''\<rparr>"
  let ?files = "[(''a'', Reader [1] None), (''b'', Reader [2] (Some ReadFailed)),
      (''c'', Reader [3] None)]"
  let ?b0 = "\<lparr>objects = Map.empty, unreachable = False, log = []\<rparr>"
  let ?ls = "\<lparr>BasePath = ''/data''\<rparr>"
  let ?fs = "\<lparr>nodes = [(''/data'', Directory), (''/data/f'', RegularFile [1] 5),
                (''/data/g'', RegularFile [2] 6)], clock = 7\<rparr>"
  let ?b1 = "\<lparr>objects = [''base/a'' \<mapsto> [1], ''base/b'' \<mapsto> [2], ''base/c'' \<mapsto> [3]],
       unreachable = False, log = []\<rparr>"
  let ?D = "\<lambda>filePath. OSSStorage_Download ?s filePath ?b1"
  let ?r = "\<lambda>i :: nat. if i = 0 then Body [1] else Body [2]"
  have j: "filepath_Join ''base'' ''a'' = ''base/a''" "filepath_Join ''base'' ''b'' = ''base/b''"
    "filepath_Join ''base'' ''c'' = ''base/c''" "filepath_Join ''base'' ''missing'' = ''base/missing''"
    "filepath_Join ''/data'' ''f'' = ''/data/f''" "filepath_Join ''/data'' ''g'' = ''/data/g''"
    "filepath_Join ''/data'' ''missing'' = ''/data/missing''"
    by (simp_all add: filepath_Join_def filepath_Clean_def clean_step_def)
  have u: "OSSStorage_Upload ?s ''a'' (Reader [1] None) ?b0
      = (None, \<lparr>objects = [''base/a'' \<mapsto> [1]], unreachable = False,
                 log = [PutObjectReq ''base/a'' [1]]\<rparr>)"
    "OSSStorage_Upload ?s ''b'' (Reader [2] (Some ReadFailed))
        \<lparr>objects = [''base/a'' \<mapsto> [1]], unreachable = False, log = [PutObjectReq ''base/a'' [1]]\<rparr>
      = (Some ReadFailed, \<lparr>objects = [''base/a'' \<mapsto> [1]], unreachable = False,
                 log = [PutObjectReq ''base/a'' [1]]\<rparr>)"
    by (simp_all add: OSSStorage_Upload_def oss_PutObject_def j Let_def)
  have d: "LocalStorage_Delete ?ls ''f'' ?fs
      = (None, \<lparr>nodes = [(''/data'', Directory), (''/data/g'', RegularFile [2] 6)], clock = 7\<rparr>)"
    "LocalStorage_Delete ?ls ''missing''
        \<lparr>nodes = [(''/data'', Directory), (''/data/g'', RegularFile [2] 6)], clock = 7\<rparr>
      = (Some ENOENT, \<lparr>nodes = [(''/data'', Directory), (''/data/g'', RegularFile [2] 6)], clock = 7\<rparr>)"
    by (simp_all add: LocalStorage_Delete_def os_Remove_def lookup_def j Let_def
        missing_error_def ancestors_def dir_chain_def upt_rec)
  have g: "?D ''a'' = Inr (Body [1])" "?D ''b'' = Inr (Body [2])" "?D ''missing'' = Inl NoSuchKey"
    by (simp_all add: OSSStorage_Download_def oss_GetObject_def j Let_def)
  have h1: "1 < length ?files
      \<and> (\<forall>i<1. fst (case_prod (OSSStorage_Upload ?s) (?files ! i)
                  (state_after (case_prod (OSSStorage_Upload ?s)) (take i ?files) ?b0)) = None)
      \<and> fst (case_prod (OSSStorage_Upload ?s) (?files ! 1)
              (state_after (case_prod (OSSStorage_Upload ?s)) (take 1 ?files) ?b0)) = Some ReadFailed"
    by (simp add: state_after_def u)
  have h2: "1 < length [''f'', ''missing'', ''g'']
      \<and> (\<forall>i<1. fst (LocalStorage_Delete ?ls ([''f'', ''missing'', ''g''] ! i)
            (state_after (LocalStorage_Delete ?ls) (take i [''f'', ''missing'', ''g'']) ?fs)) = None)
      \<and> fst (LocalStorage_Delete ?ls ([''f'', ''missing'', ''g''] ! 1)
            (state_after (LocalStorage_Delete ?ls) (take 1 [''f'', ''missing'', ''g'']) ?fs)) = Some ENOENT"
    by (simp add: state_after_def d)
  have h3: "2 < length [''a'', ''b'', ''missing'', ''c'']
      \<and> distinct (take 2 [''a'', ''b'', ''missing'', ''c''])
      \<and> (\<forall>i<2. ?D ([''a'', ''b'', ''missing'', ''c''] ! i) = Inr (?r i))
      \<and> ?D ([''a'', ''b'', ''missing'', ''c''] ! 2) = Inl NoSuchKey"
    by (simp add: g less_Suc_eq numeral_2_eq_2)
  note t = Batch_fail_fast [of 1 ?files "OSSStorage_Upload ?s" ?b0 ReadFailed
      1 "[''f'', ''missing'', ''g'']" "LocalStorage_Delete ?ls" ?fs ENOENT
      2 "[''a'', ''b'', ''missing'', ''c'']" ?D ?r NoSuchKey]
  have r1: "BatchUpload_loop (OSSStorage_Upload ?s) ?files ?b0
      = (Some ReadFailed, state_after (case_prod (OSSStorage_Upload ?s)) (take (Suc 1) ?files) ?b0)"
    using t h1 by blast
  have r2: "BatchDelete_loop (LocalStorage_Delete ?ls) [''f'', ''missing'', ''g''] ?fs
      = (Some ENOENT, state_after (LocalStorage_Delete ?ls) (take (Suc 1) [''f'', ''missing'', ''g'']) ?fs)"
    using t h2 by blast
  have r3: "BatchDownload_loop ?D 0 [''a'', ''b'', ''missing'', ''c''] []
      = (Inl NoSuchKey, map (\<lambda>i. (i, ?r i)) [0..<2])"
    using t h3 by blast
  have e3: "map (\<lambda>i. (i, ?r i)) [0..<2] = [(0, Body [1]), (1, Body [2])]"
    by (simp add: upt_rec numeral_2_eq_2)
  show ?thesis
    unfolding OSSStorage_BatchUpload_def LocalStorage_BatchDelete_def OSSStorage_BatchDownload_def
      r1 r2 r3 e3
    by (simp add: state_after_def u d)
qed

text \<open>
  C8, at the paths \<open>a\<close>, \<open>a\<close>, \<open>missing\<close> on the OSS backend, where \<open>a\<close> names an
  object and \<open>missing\<close> none: the first two downloads open the streams \<open>0\<close> and \<open>1\<close>,
  the second replaces the first in the result map, and when the third download fails
  \<open>BatchDownload\<close> closes stream \<open>1\<close> only. Stream \<open>0\<close>, opened for an earlier
  successful entry of the same call, is left open.
\<close>

theorem BatchDownload_leaves_replaced_stream_open:
  "OSSStorage_Download
      \<lparr>Endpoint = ''e'', AccessKeyID = ''k'', AccessKeySecret = ''s'', Bucket = ''bk'',
       BaseDir = ''base''\<rparr> ''a''
      \<lparr>objects = [''base/a'' \<mapsto> [1]], unreachable = False, log = []\<rparr> = Inr (Body [1])
   \<and> OSSStorage_Download
      \<lparr>Endpoint = ''e'', AccessKeyID = ''k'', AccessKeySecret = ''s'', Bucket = ''bk'',
       BaseDir = ''base''\<rparr> ''missing''
      \<lparr>objects = [''base/a'' \<mapsto> [1]], unreachable = False, log = []\<rparr> = Inl NoSuchKey
   \<and> OSSStorage_BatchDownload
      \<lparr>Endpoint = ''e'', AccessKeyID = ''k'', AccessKeySecret = ''s'', Bucket = ''bk'',
       BaseDir = ''base''\<rparr> [''a'', ''a'', ''missing'']
      \<lparr>objects = [''base/a'' \<mapsto> [1]], unreachable = False, log = []\<rparr>
     = (Inl NoSuchKey, [(1, Body [1])])"
  by (simp add: OSSStorage_BatchDownload_def OSSStorage_Download_def oss_GetObject_def Let_def
      filepath_Join_def filepath_Clean_def clean_step_def)

end
